theory Spec2Isabelle
  imports Complex_Main "HOL-Library.Sublist"
begin

section \<open>The resilient caller: makeApiCall\<close>

text \<open>
  The helper \<^verbatim>\<open>makeApiCall(url, options, maxRetries = 3)\<close> occurs with the same text in
  the search route, the chat route and (twice) the image route of the chatbot:
  \<^verbatim>\<open>
  for (let attempt = 1; attempt <= maxRetries; attempt++) {
    try {
      const response = await fetch(url, options);
      if (response.ok || response.status !== 429) { return response; }
      if (attempt < maxRetries) {
        await new Promise(resolve => setTimeout(resolve, 1000 * attempt));
      }
    } catch (error) {
      if (attempt === maxRetries) throw error;
      await new Promise(resolve => setTimeout(resolve, 1000 * attempt));
    }
  }
  throw new Error('Max retries exceeded');
  \<close>
  The url and the options are the same on every attempt, so the upstream is a function
  from the attempt number to what \<^verbatim>\<open>fetch\<close> does on that attempt: it resolves with a
  response or rejects with a transport error. The effects of the loop (the calls of
  \<^verbatim>\<open>fetch\<close> and the timers it waits for) are recorded in a trace, in order. The number of
  attempts \<^verbatim>\<open>maxRetries\<close> is a natural number; with 0 the loop body never runs.
\<close>

record response =
  status :: nat
  body :: string

datatype fetch_outcome = Resolves response | Rejects string

datatype js_error =
    Rethrown string  \<comment> \<open>the error \<^verbatim>\<open>fetch\<close> rejected with, thrown on unchanged\<close>
  | Error string     \<comment> \<open>\<^verbatim>\<open>new Error(message)\<close>\<close>

datatype call_result = Returned response | Threw js_error

datatype event =
    Fetch nat   \<comment> \<open>\<^verbatim>\<open>fetch(url, options)\<close> on the given attempt\<close>
  | Wait nat    \<comment> \<open>\<^verbatim>\<open>setTimeout\<close> awaited for the given number of milliseconds\<close>

definition ok :: "response \<Rightarrow> bool" where
  "ok r = (200 \<le> status r \<and> status r \<le> 299)"

function makeApiCall_loop ::
  "(nat \<Rightarrow> fetch_outcome) \<Rightarrow> nat \<Rightarrow> nat \<Rightarrow> event list \<Rightarrow> call_result \<times> event list" where
  "makeApiCall_loop fetch maxRetries attempt tr =
     (if attempt \<le> maxRetries then
        (case fetch attempt of
           Resolves r \<Rightarrow>
             if ok r \<or> status r \<noteq> 429 then (Returned r, tr @ [Fetch attempt])
             else if attempt < maxRetries then
               makeApiCall_loop fetch maxRetries (Suc attempt)
                 (tr @ [Fetch attempt, Wait (1000 * attempt)])
             else makeApiCall_loop fetch maxRetries (Suc attempt) (tr @ [Fetch attempt])
         | Rejects e \<Rightarrow>
             if attempt = maxRetries then (Threw (Rethrown e), tr @ [Fetch attempt])
             else makeApiCall_loop fetch maxRetries (Suc attempt)
                 (tr @ [Fetch attempt, Wait (1000 * attempt)]))
      else (Threw (Error ''Max retries exceeded''), tr))"
  by pat_completeness auto
termination
  by (relation "measure (\<lambda>(fetch, maxRetries, attempt, tr). Suc maxRetries - attempt)") auto

declare makeApiCall_loop.simps [simp del]

definition makeApiCall :: "(nat \<Rightarrow> fetch_outcome) \<Rightarrow> nat \<Rightarrow> call_result \<times> event list" where
  "makeApiCall fetch maxRetries = makeApiCall_loop fetch maxRetries 1 []"

text \<open>The default of the parameter \<^verbatim>\<open>maxRetries\<close>; no call site passes another value.\<close>

definition default_maxRetries :: nat where
  "default_maxRetries = 3"

text \<open>
  What the loop retries: a 429 response, or a rejected \<^verbatim>\<open>fetch\<close>. Every other
  response is returned at once.
\<close>

fun retryable :: "fetch_outcome \<Rightarrow> bool" where
  "retryable (Resolves r) = (status r = 429)"
| "retryable (Rejects e) = True"

text \<open>
  The effects of retrying every attempt from \<open>a\<close> up to, not including, \<open>m\<close>: each
  attempt is followed by a wait of 1000 ms times the attempt number.
\<close>

definition backoff_trace :: "nat \<Rightarrow> nat \<Rightarrow> event list" where
  "backoff_trace a m = concat (map (\<lambda>k. [Fetch k, Wait (1000 * k)]) [a..<m])"

fun attempts :: "event list \<Rightarrow> nat" where
  "attempts [] = 0"
| "attempts (Fetch k # es) = Suc (attempts es)"
| "attempts (Wait ms # es) = attempts es"

fun waits :: "event list \<Rightarrow> nat list" where
  "waits [] = []"
| "waits (Fetch k # es) = waits es"
| "waits (Wait ms # es) = ms # waits es"

text \<open>A scripted upstream: the outcomes of the attempts, in order.\<close>

definition scripted :: "fetch_outcome list \<Rightarrow> nat \<Rightarrow> fetch_outcome" where
  "scripted outcomes attempt =
     (if 1 \<le> attempt \<and> attempt \<le> length outcomes then outcomes ! (attempt - 1)
      else Rejects ''script exhausted'')"


section \<open>The key pool: getRandomApiKey\<close>

text \<open>
  \<^verbatim>\<open>process.env\<close>: a variable is a string, or is not set (\<^verbatim>\<open>undefined\<close>).
\<close>

type_synonym env = "string \<Rightarrow> string option"

text \<open>
  The pools are built once, when the module is loaded, and never assigned again:
  \<^verbatim>\<open>
  const a4fKeys: string[] = [process.env.A4F_API_KEY_1, ..., process.env.A4F_API_KEY_10]
    .filter((key): key is string => Boolean(key));
  \<close>
  \<^verbatim>\<open>Boolean(key)\<close> is false for \<^verbatim>\<open>undefined\<close> and for the empty string. After the filter
  every element is a string, so reading it with \<open>the\<close> is defined.
\<close>

fun js_Boolean :: "string option \<Rightarrow> bool" where
  "js_Boolean None = False"
| "js_Boolean (Some s) = (s \<noteq> [])"

definition filter_keys :: "string option list \<Rightarrow> string list" where
  "filter_keys vs = map the (filter js_Boolean vs)"

definition a4f_key_names :: "string list" where
  "a4f_key_names =
     [''A4F_API_KEY_1'', ''A4F_API_KEY_2'', ''A4F_API_KEY_3'', ''A4F_API_KEY_4'',
      ''A4F_API_KEY_5'', ''A4F_API_KEY_6'', ''A4F_API_KEY_7'', ''A4F_API_KEY_8'',
      ''A4F_API_KEY_9'', ''A4F_API_KEY_10'']"

definition sarvam_key_names :: "string list" where
  "sarvam_key_names =
     [''SARVAM_API_KEY_1'', ''SARVAM_API_KEY_2'', ''SARVAM_API_KEY_3'', ''SARVAM_API_KEY_4'',
      ''SARVAM_API_KEY_5'', ''SARVAM_API_KEY_6'', ''SARVAM_API_KEY_7'', ''SARVAM_API_KEY_8'',
      ''SARVAM_API_KEY_9'', ''SARVAM_API_KEY_10'', ''SARVAM_API_KEY_11'', ''SARVAM_API_KEY_12'',
      ''SARVAM_API_KEY_13'', ''SARVAM_API_KEY_14'', ''SARVAM_API_KEY_15'', ''SARVAM_API_KEY_16'',
      ''SARVAM_API_KEY_17'', ''SARVAM_API_KEY_18'']"

definition a4fKeys :: "env \<Rightarrow> string list" where
  "a4fKeys env = filter_keys (map env a4f_key_names)"

definition sarvamKeys :: "env \<Rightarrow> string list" where
  "sarvamKeys env = filter_keys (map env sarvam_key_names)"

text \<open>
  \<^verbatim>\<open>
  function getRandomApiKey(keys: string[]): string | null {
    if (keys.length === 0) return null;
    return keys[Math.floor(Math.random() * keys.length)];
  }
  \<close>
  \<^verbatim>\<open>Math.random()\<close> returns a double (IEEE 754 binary64), and the product with the length
  is the product of doubles, rounded to the nearest double, ties to even. The model
  computes it exactly, on integers. A double that is not negative is a mantissa times a
  power of two; every double in [0, 1) is \<open>mantissa * 2 ^ exponent\<close> for a mantissa below
  \<open>2 ^ 53\<close> and an exponent from -1074 to -53, which is what \<open>unit_double\<close> says and what
  the language promises of \<^verbatim>\<open>Math.random()\<close>; the theorems take it as their hypothesis.
\<close>

record double =
  mantissa :: nat
  exponent :: int

definition precision :: nat where
  "precision = 53"

definition value_of :: "double \<Rightarrow> real" where
  "value_of d = real (mantissa d) * 2 powr real_of_int (exponent d)"

definition unit_double :: "double \<Rightarrow> bool" where
  "unit_double d =
     (mantissa d < 2 ^ precision \<and> - 1074 \<le> exponent d \<and> exponent d \<le> - int precision)"

text \<open>The number of binary digits of a natural number.\<close>

fun bit_length :: "nat \<Rightarrow> nat" where
  "bit_length n = (if n = 0 then 0 else Suc (bit_length (n div 2)))"

declare bit_length.simps [simp del]

text \<open>\<open>p / 2 ^ s\<close> rounded to the nearest integer, a tie to the even one.\<close>

definition round_half_even :: "nat \<Rightarrow> nat \<Rightarrow> nat" where
  "round_half_even p s =
     (if s = 0 then p
      else let q = p div 2 ^ s; r = p mod 2 ^ s; half = 2 ^ (s - 1)
           in if half < r \<or> (r = half \<and> odd q) then q + 1 else q)"

text \<open>
  \<^verbatim>\<open>x * keys.length\<close>: the length of an array is below \<open>2 ^ 32\<close> and is a double as it is,
  so the exact product is the product of the mantissa and the length at the exponent of
  \<open>x\<close>. When it has more than 53 binary digits, the digits beyond the first 53 are
  rounded away and the exponent grows by their number.
\<close>

definition times_length :: "double \<Rightarrow> nat \<Rightarrow> double" where
  "times_length x n =
     (let p = mantissa x * n; s = bit_length p - precision
      in \<lparr>mantissa = round_half_even p s, exponent = exponent x + int s\<rparr>)"

text \<open>\<^verbatim>\<open>Math.floor\<close> of a double that is not negative.\<close>

definition Math_floor :: "double \<Rightarrow> nat" where
  "Math_floor d =
     (if 0 \<le> exponent d then mantissa d * 2 ^ nat (exponent d)
      else mantissa d div 2 ^ nat (- exponent d))"

text \<open>Reading an array outside its bounds gives \<^verbatim>\<open>undefined\<close> in JavaScript, and the model
  says so.\<close>

datatype drawn = Null | Undefined | Key string

definition getRandomApiKey :: "string list \<Rightarrow> double \<Rightarrow> drawn" where
  "getRandomApiKey keys random =
     (if length keys = 0 then Null
      else let i = Math_floor (times_length random (length keys))
           in if i < length keys then Key (keys ! i) else Undefined)"

text \<open>
  Every call site draws and checks in the same two lines, for the A4F pool (image
  route, twice) and for the Sarvam pool (chat route):
  \<^verbatim>\<open>
  const a4fKey = getRandomApiKey(a4fKeys);
  if (!a4fKey) { throw new Error('No A4F API keys available'); }
  \<close>
  \<^verbatim>\<open>!a4fKey\<close> holds for \<^verbatim>\<open>null\<close>, for \<^verbatim>\<open>undefined\<close> and for the empty string.
\<close>

definition no_keys_error :: "string \<Rightarrow> js_error" where
  "no_keys_error provider = Error (''No '' @ provider @ '' API keys available'')"

definition draw :: "string \<Rightarrow> string list \<Rightarrow> double \<Rightarrow> js_error + string" where
  "draw provider keys random =
     (case getRandomApiKey keys random of
        Key k \<Rightarrow> if k = [] then Inl (no_keys_error provider) else Inr k
      | Null \<Rightarrow> Inl (no_keys_error provider)
      | Undefined \<Rightarrow> Inl (no_keys_error provider))"

text \<open>
  For the examples: the double nearest to 0.7, which is 6305039478318694 / 2 ^ 53, the
  double 0.5, and a pool of ten keys as \<^verbatim>\<open>process.env\<close> gives them.
\<close>

definition seven_tenths :: double where
  "seven_tenths = \<lparr>mantissa = 6305039478318694, exponent = - 53\<rparr>"

definition one_half :: double where
  "one_half = \<lparr>mantissa = 4503599627370496, exponent = - 53\<rparr>"

definition ten_variables :: "string option list" where
  "ten_variables =
     [Some ''k0'', Some ''k1'', Some ''k2'', Some ''k3'', Some ''k4'',
      Some ''k5'', Some ''k6'', Some ''k7'', Some ''k8'', Some ''k9'']"


section \<open>The Express gateway: values, requests and responses\<close>

text \<open>
  Strings are lists of code units; the routes compare them with ASCII literals only.
  \<^verbatim>\<open>s.startsWith(p)\<close> holds when \<open>p\<close> is a prefix of \<open>s\<close>, \<^verbatim>\<open>s.includes(p)\<close> when \<open>p\<close>
  occurs in \<open>s\<close> as a contiguous run, and \<^verbatim>\<open>s.split('-')[0]\<close> is \<open>s\<close> up to its first
  hyphen.
\<close>

definition startsWith :: "string \<Rightarrow> string \<Rightarrow> bool" where
  "startsWith s p = prefix p s"

fun js_includes :: "string \<Rightarrow> string \<Rightarrow> bool" where
  "js_includes [] p = (p = [])"
| "js_includes (c # cs) p = (prefix p (c # cs) \<or> js_includes cs p)"

definition split_hyphen_first :: "string \<Rightarrow> string" where
  "split_hyphen_first s = takeWhile (\<lambda>c. c \<noteq> CHR ''-'') s"

text \<open>
  A template literal prints a variable of \<^verbatim>\<open>process.env\<close> that is not set as the text
  \<^verbatim>\<open>undefined\<close>.
\<close>

fun js_string :: "string option \<Rightarrow> string" where
  "js_string None = ''undefined''"
| "js_string (Some s) = s"

text \<open>
  JSON values, as \<^verbatim>\<open>express.json()\<close> parses a request body and as \<^verbatim>\<open>res.json\<close> and axios
  send one. An object is its list of members in order. \<^verbatim>\<open>undefined\<close> is \<open>None\<close> of
  \<open>json option\<close>: reading a property that is not there gives it, and an object literal
  that is serialised drops the members whose value is \<^verbatim>\<open>undefined\<close>.
\<close>

datatype json =
    JNull
  | JBool bool
  | JNum real
  | JStr string
  | JArr "json list"
  | JObj "(string \<times> json) list"

text \<open>Reading a property; a key that is repeated in the text has its last value.\<close>

fun get :: "json \<Rightarrow> string \<Rightarrow> json option" where
  "get (JObj members) k = map_of (rev members) k"
| "get v k = None"

fun obj :: "(string \<times> json option) list \<Rightarrow> json" where
  "obj members = JObj (concat (map (\<lambda>(k, v). case v of None \<Rightarrow> [] | Some x \<Rightarrow> [(k, x)]) members))"

text \<open>What \<^verbatim>\<open>a || b\<close> and \<^verbatim>\<open>!a\<close> test.\<close>

fun truthy :: "json \<Rightarrow> bool" where
  "truthy JNull = False"
| "truthy (JBool b) = b"
| "truthy (JNum x) = (x \<noteq> 0)"
| "truthy (JStr s) = (s \<noteq> [])"
| "truthy (JArr xs) = True"
| "truthy (JObj members) = True"

text \<open>A destructuring default, \<^verbatim>\<open>const { n = 1 } = req.body\<close>, replaces \<^verbatim>\<open>undefined\<close> only.\<close>

fun default_to :: "json option \<Rightarrow> json \<Rightarrow> json" where
  "default_to None d = d"
| "default_to (Some v) d = v"

record http_response =
  code :: nat
  payload :: json

text \<open>\<^verbatim>\<open>res.status(c).json({ error: message })\<close>\<close>

definition error_response :: "nat \<Rightarrow> string \<Rightarrow> http_response" where
  "error_response c message = \<lparr>code = c, payload = JObj [(''error'', JStr message)]\<rparr>"

text \<open>
  What a handler does with a request: it sends a response; or it throws outside every
  \<^verbatim>\<open>try\<close> (a \<^verbatim>\<open>TypeError\<close> in an \<^verbatim>\<open>async\<close> handler, which Express 4 does not catch, so no
  response is written); or no route matches and the request falls through to Express's
  404; or the request belongs to the routers mounted at \<^verbatim>\<open>/auth\<close> and \<^verbatim>\<open>/keys\<close>, which are
  not part of this model.
\<close>

datatype outcome = Responded http_response | Unhandled | NotFound | Other_router

text \<open>
  The upstream call \<^verbatim>\<open>axios.post(apiUrl, requestData, { headers })\<close>. A header whose value is
  a variable that is not set is \<open>None\<close>.
\<close>

record upstream_request =
  apiUrl :: string
  headers :: "(string \<times> string option) list"
  requestData :: json

text \<open>
  axios fulfils the promise with the response of a 2xx status and rejects it otherwise.
  The error it rejects with has a \<^verbatim>\<open>message\<close> and a \<^verbatim>\<open>stack\<close>, and a \<^verbatim>\<open>response\<close> (status and
  body) when the upstream answered at all. The world is a parameter: a function from the
  request to what axios returns for it.
\<close>

record axios_error =
  response_of :: "(nat \<times> json) option"
  message :: string
  stack :: string

datatype axios_result = Fulfilled json | Rejected axios_error

text \<open>
  What axios makes of the answer of the upstream (\<^verbatim>\<open>settle\<close>, with the default
  \<^verbatim>\<open>validateStatus\<close>, \<^verbatim>\<open>status >= 200 && status < 300\<close>): a status from 200 to 299 fulfils the
  promise with the answer; any other status rejects it with an error whose \<^verbatim>\<open>message\<close> is
  \<^verbatim>\<open>'Request failed with status code ' + response.status\<close> and whose \<^verbatim>\<open>response\<close> is the
  answer. An upstream that does not answer rejects with an error that has a message of
  its own and no \<^verbatim>\<open>response\<close>. The stack trace of the error is a parameter.
\<close>

datatype upstream_answer = Answer nat json | No_answer string

text \<open>A number in a string concatenation: its decimal digits.\<close>

fun decimal :: "nat \<Rightarrow> string" where
  "decimal n =
     (if n < 10 then [''0123456789'' ! n]
      else decimal (n div 10) @ [''0123456789'' ! (n mod 10)])"

declare decimal.simps [simp del]

definition axios_post ::
  "string \<Rightarrow> (upstream_request \<Rightarrow> upstream_answer) \<Rightarrow> upstream_request \<Rightarrow> axios_result" where
  "axios_post trace upstream rq =
     (case upstream rq of
        Answer st d \<Rightarrow>
          if 200 \<le> st \<and> st < 300 then Fulfilled d
          else Rejected \<lparr>response_of = Some (st, d),
                         message = ''Request failed with status code '' @ decimal st,
                         stack = trace\<rparr>
      | No_answer m \<Rightarrow> Rejected \<lparr>response_of = None, message = m, stack = trace\<rparr>)"

text \<open>\<^verbatim>\<open>error.response?.data || error.message\<close>\<close>

definition error_detail :: "axios_error \<Rightarrow> json" where
  "error_detail e =
     (case response_of e of
        Some (st, d) \<Rightarrow> if truthy d then d else JStr (message e)
      | None \<Rightarrow> JStr (message e))"

text \<open>
  The end of every forwarding handler:
  \<^verbatim>\<open>
  try {
    const response = await axios.post(apiUrl, requestData, { headers });
    res.json(response.data);
  } catch (error) {
    console.error(error);
    res.status(500).json({ error: error.response?.data || error.message });
  }
  \<close>
  The result is the response with the list of upstream calls made. A request that could
  not be built (\<open>None\<close>: the branch threw a \<^verbatim>\<open>TypeError\<close> before the \<^verbatim>\<open>try\<close>) is not sent.
\<close>

fun forward :: "(upstream_request \<Rightarrow> axios_result) \<Rightarrow> upstream_request option \<Rightarrow>
    outcome \<times> upstream_request list" where
  "forward post None = (Unhandled, [])"
| "forward post (Some rq) =
     (case post rq of
        Fulfilled d \<Rightarrow> (Responded \<lparr>code = 200, payload = d\<rparr>, [rq])
      | Rejected e \<Rightarrow>
          (Responded \<lparr>code = 500, payload = JObj [(''error'', error_detail e)]\<rparr>, [rq]))"

text \<open>
  \<^verbatim>\<open>const { model } = req.body\<close>, then \<^verbatim>\<open>model.startsWith(...)\<close>: only a string has the
  method, so any other \<^verbatim>\<open>model\<close> (or none) is a \<^verbatim>\<open>TypeError\<close>.
\<close>

definition model_of :: "json \<Rightarrow> string option" where
  "model_of b = (case get b ''model'' of Some (JStr m) \<Rightarrow> Some m | _ \<Rightarrow> None)"

definition bearer :: "string option \<Rightarrow> (string \<times> string option) list" where
  "bearer apiKey =
     [(''Authorization'', Some (''Bearer '' @ js_string apiKey)),
      (''Content-Type'', Some ''application/json'')]"


section \<open>The route handlers and their prefix chains\<close>

text \<open>
  Every handler is an \<^verbatim>\<open>if\<close>/\<^verbatim>\<open>else if\<close> chain over \<^verbatim>\<open>model.startsWith(prefix)\<close>. The
  model splits a chain in two: \<open>select_\<dots>\<close> is the chain of conditions, in the order of
  the source, each giving the branch it enters (named after the comment above the
  branch); \<open>\<dots>_request\<close> is what the branch assigns to \<^verbatim>\<open>apiUrl\<close>, \<^verbatim>\<open>headers\<close> and
  \<^verbatim>\<open>requestData\<close>. The final \<^verbatim>\<open>else\<close> of a chain is \<open>None\<close>.
\<close>

subsection \<open>POST /v1/chat/completions\<close>

datatype chat_adapter =
    Chat_OpenAI | Chat_Anthropic | Chat_Google | Chat_Meta
  | Chat_Cohere | Chat_Mistral | Chat_Qwen | Chat_Other

definition select_chat :: "string \<Rightarrow> chat_adapter option" where
  "select_chat model =
     (if startsWith model ''gpt'' \<or> startsWith model ''text-'' \<or> startsWith model ''code-''
         \<or> startsWith model ''dall-e'' then Some Chat_OpenAI
      else if startsWith model ''claude'' then Some Chat_Anthropic
      else if startsWith model ''gemini'' \<or> startsWith model ''palm'' \<or> startsWith model ''bert''
         \<or> startsWith model ''t5'' then Some Chat_Google
      else if startsWith model ''llama'' \<or> startsWith model ''codellama'' then Some Chat_Meta
      else if startsWith model ''command'' \<or> startsWith model ''base'' then Some Chat_Cohere
      else if startsWith model ''mistral'' \<or> startsWith model ''mixtral''
         \<or> startsWith model ''codestral'' then Some Chat_Mistral
      else if startsWith model ''qwen'' then Some Chat_Qwen
      else if startsWith model ''deepseek'' \<or> startsWith model ''starcoder''
         \<or> startsWith model ''phi'' \<or> startsWith model ''falcon'' \<or> startsWith model ''yi''
        then Some Chat_Other
      else None)"

text \<open>
  \<^verbatim>\<open>req.body.messages.map(msg => ({ text: msg.content }))\<close>: a \<^verbatim>\<open>TypeError\<close> (\<open>None\<close>)
  unless \<^verbatim>\<open>messages\<close> is an array with no \<^verbatim>\<open>null\<close> in it.
\<close>

fun google_parts :: "json option \<Rightarrow> json list option" where
  "google_parts (Some (JArr msgs)) =
     (if JNull \<in> set msgs then None
      else Some (map (\<lambda>msg. obj [(''text'', get msg ''content'')]) msgs))"
| "google_parts v = None"

text \<open>\<^verbatim>\<open>req.body.max_tokens || 1024\<close>\<close>

fun or_else :: "json option \<Rightarrow> json \<Rightarrow> json" where
  "or_else None d = d"
| "or_else (Some v) d = (if truthy v then v else d)"

text \<open>
  \<^verbatim>\<open>toUpperCase\<close>, on the letters a to z; the variable it names is read only by the last
  branch of the chat chain.
\<close>

definition toUpperCase :: "string \<Rightarrow> string" where
  "toUpperCase s =
     map (\<lambda>c. if 97 \<le> (of_char c :: nat) \<and> (of_char c :: nat) \<le> 122
               then char_of ((of_char c :: nat) - 32) else c) s"

fun chat_request :: "env \<Rightarrow> json \<Rightarrow> string \<Rightarrow> chat_adapter \<Rightarrow> upstream_request option" where
  "chat_request env b model Chat_OpenAI =
     Some \<lparr>apiUrl = ''https://api.openai.com/v1/chat/completions'',
           headers = bearer (env ''OPENAI_API_KEY''),
           requestData = b\<rparr>"
| "chat_request env b model Chat_Anthropic =
     Some \<lparr>apiUrl = ''https://api.anthropic.com/v1/messages'',
           headers = [(''x-api-key'', env ''ANTHROPIC_API_KEY''),
                      (''Content-Type'', Some ''application/json''),
                      (''anthropic-version'', Some ''2023-06-01'')],
           requestData = obj [(''model'', Some (JStr model)),
                              (''max_tokens'', Some (or_else (get b ''max_tokens'') (JNum 1024))),
                              (''messages'', get b ''messages'')]\<rparr>"
| "chat_request env b model Chat_Google =
     (case google_parts (get b ''messages'') of
        None \<Rightarrow> None
      | Some parts \<Rightarrow>
          Some \<lparr>apiUrl = ''https://generativelanguage.googleapis.com/v1beta/models/'' @ model
                          @ '':generateContent?key='' @ js_string (env ''GOOGLE_API_KEY''),
                headers = [(''Content-Type'', Some ''application/json'')],
                requestData = JObj [(''contents'', JArr [JObj [(''parts'', JArr parts)]])]\<rparr>)"
| "chat_request env b model Chat_Meta =
     Some \<lparr>apiUrl = ''https://api.meta.ai/v1/chat/completions'',
           headers = bearer (env ''META_API_KEY''),
           requestData = b\<rparr>"
| "chat_request env b model Chat_Cohere =
     Some \<lparr>apiUrl = ''https://api.cohere.ai/v1/chat'',
           headers = bearer (env ''COHERE_API_KEY''),
           requestData = b\<rparr>"
| "chat_request env b model Chat_Mistral =
     Some \<lparr>apiUrl = ''https://api.mistral.ai/v1/chat/completions'',
           headers = bearer (env ''MISTRAL_API_KEY''),
           requestData = b\<rparr>"
| "chat_request env b model Chat_Qwen =
     Some \<lparr>apiUrl = ''https://api.qwen.ai/v1/chat/completions'',
           headers = bearer (env ''QWEN_API_KEY''),
           requestData = b\<rparr>"
| "chat_request env b model Chat_Other =
     Some \<lparr>apiUrl = ''https://api.'' @ split_hyphen_first model @ ''.ai/v1/chat/completions'',
           headers = bearer (env (toUpperCase (split_hyphen_first model) @ ''_API_KEY'')),
           requestData = b\<rparr>"

definition chat_completions ::
  "env \<Rightarrow> (upstream_request \<Rightarrow> axios_result) \<Rightarrow> json \<Rightarrow> outcome \<times> upstream_request list" where
  "chat_completions env post b =
     (case model_of b of
        None \<Rightarrow> (Unhandled, [])
      | Some model \<Rightarrow>
          (case select_chat model of
             None \<Rightarrow> (Responded (error_response 400 ''Unsupported model''), [])
           | Some a \<Rightarrow> forward post (chat_request env b model a)))"

subsection \<open>POST /v1/embeddings\<close>

datatype embed_adapter = Embed_OpenAI | Embed_Cohere | Embed_Google | Embed_HuggingFace

definition select_embeddings :: "string \<Rightarrow> embed_adapter option" where
  "select_embeddings model =
     (if startsWith model ''text-embedding'' then Some Embed_OpenAI
      else if startsWith model ''embed-'' then Some Embed_Cohere
      else if startsWith model ''text-embedding-004'' then Some Embed_Google
      else if startsWith model ''sentence-transformers'' \<or> startsWith model ''e5-''
        then Some Embed_HuggingFace
      else None)"

definition google_embedding_url :: "env \<Rightarrow> string" where
  "google_embedding_url env =
     ''https://generativelanguage.googleapis.com/v1beta/models/text-embedding-004:embedContent?key=''
       @ js_string (env ''GOOGLE_API_KEY'')"

fun embeddings_request :: "env \<Rightarrow> json \<Rightarrow> string \<Rightarrow> embed_adapter \<Rightarrow> upstream_request option" where
  "embeddings_request env b model Embed_OpenAI =
     Some \<lparr>apiUrl = ''https://api.openai.com/v1/embeddings'',
           headers = bearer (env ''OPENAI_API_KEY''),
           requestData = b\<rparr>"
| "embeddings_request env b model Embed_Cohere =
     Some \<lparr>apiUrl = ''https://api.cohere.ai/v1/embed'',
           headers = bearer (env ''COHERE_API_KEY''),
           requestData = b\<rparr>"
| "embeddings_request env b model Embed_Google =
     Some \<lparr>apiUrl = google_embedding_url env,
           headers = [(''Content-Type'', Some ''application/json'')],
           requestData =
             JObj [(''content'', JObj [(''parts'', JArr [obj [(''text'', get b ''input'')]])])]\<rparr>"
| "embeddings_request env b model Embed_HuggingFace =
     Some \<lparr>apiUrl = ''https://api-inference.huggingface.co/models/'' @ model,
           headers = bearer (env ''HUGGINGFACE_API_KEY''),
           requestData = obj [(''inputs'', get b ''input'')]\<rparr>"

definition embeddings ::
  "env \<Rightarrow> (upstream_request \<Rightarrow> axios_result) \<Rightarrow> json \<Rightarrow> outcome \<times> upstream_request list" where
  "embeddings env post b =
     (case model_of b of
        None \<Rightarrow> (Unhandled, [])
      | Some model \<Rightarrow>
          (case select_embeddings model of
             None \<Rightarrow> (Responded (error_response 400 ''Unsupported embedding model''), [])
           | Some a \<Rightarrow> forward post (embeddings_request env b model a)))"

subsection \<open>POST /v1/images/generations, /edits and /variations\<close>

datatype image_adapter =
    Image_OpenAI | Image_Stability | Image_Midjourney | Image_Google | Image_Flux | Image_Kandinsky

definition select_image :: "string \<Rightarrow> image_adapter option" where
  "select_image model =
     (if startsWith model ''dall-e'' then Some Image_OpenAI
      else if startsWith model ''stable-diffusion'' then Some Image_Stability
      else if startsWith model ''midjourney'' then Some Image_Midjourney
      else if startsWith model ''imagen'' then Some Image_Google
      else if startsWith model ''flux'' then Some Image_Flux
      else if startsWith model ''kandinsky'' then Some Image_Kandinsky
      else None)"

text \<open>\<^verbatim>\<open>const { model, prompt, size = '1024x1024', n = 1 } = req.body\<close>\<close>

fun image_request :: "env \<Rightarrow> json \<Rightarrow> string \<Rightarrow> image_adapter \<Rightarrow> upstream_request option" where
  "image_request env b model Image_OpenAI =
     Some \<lparr>apiUrl = ''https://api.openai.com/v1/images/generations'',
           headers = bearer (env ''OPENAI_API_KEY''),
           requestData = obj [(''model'', Some (JStr model)),
                              (''prompt'', get b ''prompt''),
                              (''size'', Some (default_to (get b ''size'') (JStr ''1024x1024''))),
                              (''n'', Some (default_to (get b ''n'') (JNum 1)))]\<rparr>"
| "image_request env b model Image_Stability =
     Some \<lparr>apiUrl = ''https://api.stability.ai/v1/generation/stable-diffusion-xl-1024-v1-0/text-to-image'',
           headers = bearer (env ''STABILITY_API_KEY''),
           requestData = obj [(''text_prompts'', Some (JArr [obj [(''text'', get b ''prompt'')]])),
                              (''cfg_scale'', Some (JNum 7)),
                              (''height'', Some (JNum 1024)),
                              (''width'', Some (JNum 1024)),
                              (''samples'', Some (default_to (get b ''n'') (JNum 1))),
                              (''steps'', Some (JNum 20))]\<rparr>"
| "image_request env b model Image_Midjourney =
     Some \<lparr>apiUrl = ''https://api.midjourney.com/v1/imagine'',
           headers = bearer (env ''MIDJOURNEY_API_KEY''),
           requestData = obj [(''prompt'', get b ''prompt'')]\<rparr>"
| "image_request env b model Image_Google =
     Some \<lparr>apiUrl = ''https://generativelanguage.googleapis.com/v1beta/models/imagen-3.0-generate-001:predict?key=''
                      @ js_string (env ''GOOGLE_API_KEY''),
           headers = [(''Content-Type'', Some ''application/json'')],
           requestData = obj [(''prompt'', get b ''prompt'')]\<rparr>"
| "image_request env b model Image_Flux =
     Some \<lparr>apiUrl = ''https://api.flux.ai/v1/images/generations'',
           headers = bearer (env ''FLUX_API_KEY''),
           requestData = obj [(''prompt'', get b ''prompt''),
                              (''size'', Some (default_to (get b ''size'') (JStr ''1024x1024'')))]\<rparr>"
| "image_request env b model Image_Kandinsky =
     Some \<lparr>apiUrl = ''https://api.kandinsky.ai/v1/images/generations'',
           headers = bearer (env ''KANDINSKY_API_KEY''),
           requestData = obj [(''prompt'', get b ''prompt'')]\<rparr>"

definition images_generations ::
  "env \<Rightarrow> (upstream_request \<Rightarrow> axios_result) \<Rightarrow> json \<Rightarrow> outcome \<times> upstream_request list" where
  "images_generations env post b =
     (case model_of b of
        None \<Rightarrow> (Unhandled, [])
      | Some model \<Rightarrow>
          (case select_image model of
             None \<Rightarrow> (Responded (error_response 400 ''Unsupported image model''), [])
           | Some a \<Rightarrow> forward post (image_request env b model a)))"

definition multipart :: "string option \<Rightarrow> (string \<times> string option) list" where
  "multipart apiKey =
     [(''Authorization'', Some (''Bearer '' @ js_string apiKey)),
      (''Content-Type'', Some ''multipart/form-data'')]"

definition images_edits ::
  "env \<Rightarrow> (upstream_request \<Rightarrow> axios_result) \<Rightarrow> json \<Rightarrow> outcome \<times> upstream_request list" where
  "images_edits env post b =
     (case model_of b of
        None \<Rightarrow> (Unhandled, [])
      | Some model \<Rightarrow>
          if startsWith model ''dall-e'' then
            forward post (Some \<lparr>apiUrl = ''https://api.openai.com/v1/images/edits'',
                                headers = multipart (env ''OPENAI_API_KEY''),
                                requestData = b\<rparr>)
          else (Responded (error_response 400 ''Image editing not supported for this model''), []))"

definition images_variations ::
  "env \<Rightarrow> (upstream_request \<Rightarrow> axios_result) \<Rightarrow> json \<Rightarrow> outcome \<times> upstream_request list" where
  "images_variations env post b =
     (case model_of b of
        None \<Rightarrow> (Unhandled, [])
      | Some model \<Rightarrow>
          if startsWith model ''dall-e'' then
            forward post (Some \<lparr>apiUrl = ''https://api.openai.com/v1/images/variations'',
                                headers = multipart (env ''OPENAI_API_KEY''),
                                requestData = b\<rparr>)
          else (Responded (error_response 400 ''Image variations not supported for this model''), []))"

subsection \<open>POST /v1/audio/transcriptions, /translations and /speech\<close>

datatype transcription_adapter = Transcribe_OpenAI | Transcribe_Google

definition select_transcription :: "string \<Rightarrow> transcription_adapter option" where
  "select_transcription model =
     (if startsWith model ''whisper'' then Some Transcribe_OpenAI
      else if startsWith model ''google'' then Some Transcribe_Google
      else None)"

fun transcription_request ::
  "env \<Rightarrow> json \<Rightarrow> string \<Rightarrow> transcription_adapter \<Rightarrow> upstream_request option" where
  "transcription_request env b model Transcribe_OpenAI =
     Some \<lparr>apiUrl = ''https://api.openai.com/v1/audio/transcriptions'',
           headers = multipart (env ''OPENAI_API_KEY''),
           requestData = b\<rparr>"
| "transcription_request env b model Transcribe_Google =
     Some \<lparr>apiUrl = ''https://speech.googleapis.com/v1/speech:recognize?key=''
                      @ js_string (env ''GOOGLE_API_KEY''),
           headers = [(''Content-Type'', Some ''application/json'')],
           requestData = b\<rparr>"

definition audio_transcriptions ::
  "env \<Rightarrow> (upstream_request \<Rightarrow> axios_result) \<Rightarrow> json \<Rightarrow> outcome \<times> upstream_request list" where
  "audio_transcriptions env post b =
     (case model_of b of
        None \<Rightarrow> (Unhandled, [])
      | Some model \<Rightarrow>
          (case select_transcription model of
             None \<Rightarrow> (Responded (error_response 400 ''Unsupported transcription model''), [])
           | Some a \<Rightarrow> forward post (transcription_request env b model a)))"

definition audio_translations ::
  "env \<Rightarrow> (upstream_request \<Rightarrow> axios_result) \<Rightarrow> json \<Rightarrow> outcome \<times> upstream_request list" where
  "audio_translations env post b =
     (case model_of b of
        None \<Rightarrow> (Unhandled, [])
      | Some model \<Rightarrow>
          if startsWith model ''whisper'' then
            forward post (Some \<lparr>apiUrl = ''https://api.openai.com/v1/audio/translations'',
                                headers = multipart (env ''OPENAI_API_KEY''),
                                requestData = b\<rparr>)
          else (Responded (error_response 400 ''Audio translation not supported for this model''), []))"

datatype speech_adapter = Speech_OpenAI | Speech_ElevenLabs | Speech_Google

definition select_speech :: "string \<Rightarrow> speech_adapter option" where
  "select_speech model =
     (if startsWith model ''tts'' then Some Speech_OpenAI
      else if startsWith model ''eleven'' then Some Speech_ElevenLabs
      else if startsWith model ''google'' then Some Speech_Google
      else None)"

text \<open>\<^verbatim>\<open>const { model, input, voice = 'alloy' } = req.body\<close>\<close>

fun speech_request :: "env \<Rightarrow> json \<Rightarrow> string \<Rightarrow> speech_adapter \<Rightarrow> upstream_request option" where
  "speech_request env b model Speech_OpenAI =
     Some \<lparr>apiUrl = ''https://api.openai.com/v1/audio/speech'',
           headers = bearer (env ''OPENAI_API_KEY''),
           requestData = obj [(''model'', Some (JStr model)),
                              (''input'', get b ''input''),
                              (''voice'', Some (default_to (get b ''voice'') (JStr ''alloy'')))]\<rparr>"
| "speech_request env b model Speech_ElevenLabs =
     Some \<lparr>apiUrl = ''https://api.elevenlabs.io/v1/text-to-speech/21m00Tcm4TlvDq8ikWAM'',
           headers = [(''Accept'', Some ''audio/mpeg''),
                      (''Content-Type'', Some ''application/json''),
                      (''xi-api-key'', env ''ELEVENLABS_API_KEY'')],
           requestData = obj [(''text'', get b ''input''),
                              (''model_id'', Some (JStr model)),
                              (''voice_settings'',
                                 Some (JObj [(''stability'', JNum (1 / 2)),
                                             (''similarity_boost'', JNum (1 / 2))]))]\<rparr>"
| "speech_request env b model Speech_Google =
     Some \<lparr>apiUrl = ''https://texttospeech.googleapis.com/v1/text:synthesize?key=''
                      @ js_string (env ''GOOGLE_API_KEY''),
           headers = [(''Content-Type'', Some ''application/json'')],
           requestData = obj [(''input'', Some (obj [(''text'', get b ''input'')])),
                              (''voice'',
                                 Some (JObj [(''languageCode'', JStr ''en-US''),
                                             (''name'', default_to (get b ''voice'') (JStr ''alloy''))])),
                              (''audioConfig'', Some (JObj [(''audioEncoding'', JStr ''MP3'')]))]\<rparr>"

definition audio_speech ::
  "env \<Rightarrow> (upstream_request \<Rightarrow> axios_result) \<Rightarrow> json \<Rightarrow> outcome \<times> upstream_request list" where
  "audio_speech env post b =
     (case model_of b of
        None \<Rightarrow> (Unhandled, [])
      | Some model \<Rightarrow>
          (case select_speech model of
             None \<Rightarrow> (Responded (error_response 400 ''Unsupported TTS model''), [])
           | Some a \<Rightarrow> forward post (speech_request env b model a)))"

subsection \<open>The router as an ordered table of rules\<close>

text \<open>
  The router as the specification words it: walk the declared list of (prefix, adapter)
  rules in order and return the adapter of the first rule whose prefix is a literal prefix
  of the model identifier; no rule, no adapter.
\<close>

definition first_match :: "(string \<times> 'a) list \<Rightarrow> string \<Rightarrow> 'a option" where
  "first_match rules m = map_option snd (find (\<lambda>rule. prefix (fst rule) m) rules)"

definition chat_rules :: "(string \<times> chat_adapter) list" where
  "chat_rules =
     [(''gpt'', Chat_OpenAI), (''text-'', Chat_OpenAI), (''code-'', Chat_OpenAI),
      (''dall-e'', Chat_OpenAI),
      (''claude'', Chat_Anthropic),
      (''gemini'', Chat_Google), (''palm'', Chat_Google), (''bert'', Chat_Google),
      (''t5'', Chat_Google),
      (''llama'', Chat_Meta), (''codellama'', Chat_Meta),
      (''command'', Chat_Cohere), (''base'', Chat_Cohere),
      (''mistral'', Chat_Mistral), (''mixtral'', Chat_Mistral), (''codestral'', Chat_Mistral),
      (''qwen'', Chat_Qwen),
      (''deepseek'', Chat_Other), (''starcoder'', Chat_Other), (''phi'', Chat_Other),
      (''falcon'', Chat_Other), (''yi'', Chat_Other)]"

definition embedding_rules :: "(string \<times> embed_adapter) list" where
  "embedding_rules =
     [(''text-embedding'', Embed_OpenAI),
      (''embed-'', Embed_Cohere),
      (''text-embedding-004'', Embed_Google),
      (''sentence-transformers'', Embed_HuggingFace), (''e5-'', Embed_HuggingFace)]"

definition image_rules :: "(string \<times> image_adapter) list" where
  "image_rules =
     [(''dall-e'', Image_OpenAI), (''stable-diffusion'', Image_Stability),
      (''midjourney'', Image_Midjourney), (''imagen'', Image_Google),
      (''flux'', Image_Flux), (''kandinsky'', Image_Kandinsky)]"

definition transcription_rules :: "(string \<times> transcription_adapter) list" where
  "transcription_rules = [(''whisper'', Transcribe_OpenAI), (''google'', Transcribe_Google)]"

definition speech_rules :: "(string \<times> speech_adapter) list" where
  "speech_rules =
     [(''tts'', Speech_OpenAI), (''eleven'', Speech_ElevenLabs), (''google'', Speech_Google)]"

text \<open>Concrete surroundings for the examples: no variable is set, and the upstream is down.\<close>

definition no_env :: env where
  "no_env name = None"

definition upstream_down :: "upstream_request \<Rightarrow> axios_result" where
  "upstream_down rq =
     Rejected \<lparr>response_of = None, message = ''connect ECONNREFUSED'', stack = ''Error: at ...''\<rparr>"

definition with_model :: "string \<Rightarrow> json" where
  "with_model m = JObj [(''model'', JStr m)]"

text \<open>An upstream that answers every request with the given status and body, and the stack
  trace of the examples.\<close>

definition answering :: "nat \<Rightarrow> json \<Rightarrow> upstream_request \<Rightarrow> upstream_answer" where
  "answering st d rq = Answer st d"

definition sample_trace :: string where
  "sample_trace = ''AxiosError: Request failed at settle (node_modules/axios/lib/core/settle.js)''"


section \<open>The models listing\<close>

text \<open>
  \<^verbatim>\<open>models.json\<close> is not among the sources; it is a parameter. The handlers read it as an
  object of categories, each an object of providers, each an array of model names, and
  walk it with \<^verbatim>\<open>Object.keys(...).forEach\<close>: the table is the list of its members in that
  order. The keys of a JavaScript object are distinct, which \<open>well_formed\<close> says together
  with the data model's rule that a model is named once within its category and provider.
\<close>

type_synonym models_table = "(string \<times> (string \<times> string list) list) list"

definition well_formed :: "models_table \<Rightarrow> bool" where
  "well_formed table =
     (distinct (map fst table) \<and>
      list_all (\<lambda>category. distinct (map fst (snd category)) \<and>
                  list_all (\<lambda>provider. distinct (snd provider)) (snd category)) table)"

text \<open>
  The Express handler, \<^verbatim>\<open>app.get('/v1/models', ...)\<close>:
  \<^verbatim>\<open>
  Object.keys(models).forEach(category => {
    Object.keys(models[category]).forEach(provider => {
      models[category][provider].forEach(model => {
        allModels.push({ id: model, object: 'model', created: Date.now(),
                         owned_by: provider, category: category });
      });
    });
  });
  res.json({ object: 'list', data: allModels });
  \<close>
  \<^verbatim>\<open>Date.now()\<close> is called once for each entry pushed: \<open>clock k\<close> is what its call number
  \<open>k\<close> returns, and \<open>k\<close> is the number of entries pushed so far.
\<close>

definition model_entry :: "int \<Rightarrow> string \<Rightarrow> string \<Rightarrow> string \<Rightarrow> json" where
  "model_entry created category provider model =
     JObj [(''id'', JStr model),
           (''object'', JStr ''model''),
           (''created'', JNum (of_int created)),
           (''owned_by'', JStr provider),
           (''category'', JStr category)]"

text \<open>
  The three nested \<^verbatim>\<open>forEach\<close> loops are the same in both handlers of the listing; they
  differ in the entry they push, which is the first parameter here.
\<close>

type_synonym entry_maker = "int \<Rightarrow> string \<Rightarrow> string \<Rightarrow> string \<Rightarrow> json"

definition push_models ::
  "entry_maker \<Rightarrow> (nat \<Rightarrow> int) \<Rightarrow> string \<Rightarrow> string \<Rightarrow> string list \<Rightarrow> json list \<Rightarrow> json list" where
  "push_models entry clock category provider models allModels =
     fold (\<lambda>model acc. acc @ [entry (clock (length acc)) category provider model])
       models allModels"

definition push_providers ::
  "entry_maker \<Rightarrow> (nat \<Rightarrow> int) \<Rightarrow> string \<Rightarrow> (string \<times> string list) list \<Rightarrow> json list \<Rightarrow>
     json list" where
  "push_providers entry clock category providers allModels =
     fold (\<lambda>provider acc. push_models entry clock category (fst provider) (snd provider) acc)
       providers allModels"

definition push_categories ::
  "entry_maker \<Rightarrow> (nat \<Rightarrow> int) \<Rightarrow> models_table \<Rightarrow> json list \<Rightarrow> json list" where
  "push_categories entry clock table allModels =
     fold (\<lambda>category acc. push_providers entry clock (fst category) (snd category) acc)
       table allModels"

definition all_models :: "entry_maker \<Rightarrow> (nat \<Rightarrow> int) \<Rightarrow> models_table \<Rightarrow> json list" where
  "all_models entry clock table = push_categories entry clock table []"

definition v1_models :: "(nat \<Rightarrow> int) \<Rightarrow> models_table \<Rightarrow> http_response" where
  "v1_models clock table =
     \<lparr>code = 200,
      payload = JObj [(''object'', JStr ''list''),
                      (''data'', JArr (all_models model_entry clock table))]\<rparr>"

text \<open>
  The Next.js handler, \<^verbatim>\<open>GET\<close> of \<^verbatim>\<open>app/api/models/route.ts\<close> (served at \<^verbatim>\<open>/api/models\<close>), walks
  the table the same way and adds a pricing tier to each entry:
  \<^verbatim>\<open>
  let pricing_tier = 'free';
  let pricing = null;
  if (model.includes('gpt-4') || model.includes('claude-3') || model.includes('dall-e-3')) {
    pricing_tier = 'pro';
    pricing = { input: 0.002, output: 0.002 };
  }
  allModels.push({ id: model, object: 'model', created: Date.now(), owned_by: provider,
                   category: category, pricing_tier: pricing_tier, pricing: pricing });
  \<close>
\<close>

definition is_pro :: "string \<Rightarrow> bool" where
  "is_pro model =
     (js_includes model ''gpt-4'' \<or> js_includes model ''claude-3'' \<or> js_includes model ''dall-e-3'')"

definition priced_entry :: "int \<Rightarrow> string \<Rightarrow> string \<Rightarrow> string \<Rightarrow> json" where
  "priced_entry created category provider model =
     JObj [(''id'', JStr model),
           (''object'', JStr ''model''),
           (''created'', JNum (of_int created)),
           (''owned_by'', JStr provider),
           (''category'', JStr category),
           (''pricing_tier'', JStr (if is_pro model then ''pro'' else ''free'')),
           (''pricing'',
              if is_pro model
              then JObj [(''input'', JNum (2 / 1000)), (''output'', JNum (2 / 1000))]
              else JNull)]"

definition api_models :: "(nat \<Rightarrow> int) \<Rightarrow> models_table \<Rightarrow> http_response" where
  "api_models clock table =
     \<lparr>code = 200,
      payload = JObj [(''object'', JStr ''list''),
                      (''data'', JArr (all_models priced_entry clock table))]\<rparr>"

text \<open>
  The occurrences declared in the table, in order: one (category, provider, model) for
  each model name of each provider of each category.
\<close>

definition occurrences :: "models_table \<Rightarrow> (string \<times> string \<times> string) list" where
  "occurrences table =
     concat (map (\<lambda>category.
       concat (map (\<lambda>provider. map (\<lambda>model. (fst category, fst provider, model)) (snd provider))
                   (snd category))) table)"

text \<open>What an entry says of its occurrence, and the names of its members.\<close>

definition entry_of :: "json \<Rightarrow> json option \<times> json option \<times> json option" where
  "entry_of e = (get e ''category'', get e ''owned_by'', get e ''id'')"

fun member_names :: "json \<Rightarrow> string list" where
  "member_names (JObj members) = map fst members"
| "member_names v = []"

definition named :: "string \<times> string \<times> string \<Rightarrow> json option \<times> json option \<times> json option" where
  "named t = (Some (JStr (fst t)), Some (JStr (fst (snd t))), Some (JStr (snd (snd t))))"

definition fixed_clock :: "nat \<Rightarrow> int" where
  "fixed_clock k = 1700000000000"


section \<open>The auth middleware and the routes of the Express app\<close>

text \<open>
  A request as the routes see it, after \<^verbatim>\<open>express.json()\<close> has parsed its body: the method,
  the path as its list of segments, the source address, the time of arrival in
  milliseconds, the \<^verbatim>\<open>Authorization\<close> header and the body.
\<close>

datatype verb = GET | POST | PUT | DELETE

record request =
  verb :: verb
  path :: "string list"
  ip :: string
  arrived :: nat
  authorization :: "string option"
  req_body :: json

text \<open>
  \<^verbatim>\<open>APIKey.findOne({ key })\<close> resolves to the stored document (of which the middleware reads
  \<^verbatim>\<open>user\<close>), resolves to \<^verbatim>\<open>null\<close>, or rejects. The store is a parameter.
\<close>

datatype lookup = Found string | Absent | Failed

text \<open>What a request makes happen outside the process: a lookup in the store, an upstream call.\<close>

datatype effect = FindOne "string option" | Post upstream_request

text \<open>\<^verbatim>\<open>s.split(c)\<close>\<close>

fun split_on :: "char \<Rightarrow> string \<Rightarrow> string list" where
  "split_on c [] = [[]]"
| "split_on c (x # xs) =
     (if x = c then [] # split_on c xs
      else (case split_on c xs of
              [] \<Rightarrow> [[x]]
            | w # ws \<Rightarrow> (x # w) # ws))"

text \<open>\<^verbatim>\<open>const key = authHeader.split(' ')[1]\<close>; the second element may not be there.\<close>

definition key_of :: "string \<Rightarrow> string option" where
  "key_of authHeader =
     (case split_on (CHR '' '') authHeader of
        a # k # rest \<Rightarrow> Some k
      | _ \<Rightarrow> None)"

text \<open>
  \<^verbatim>\<open>
  const auth = async (req, res, next) => {
    const authHeader = req.headers.authorization;
    if (!authHeader || !authHeader.startsWith('Bearer ')) {
      return res.status(401).json({ error: 'Unauthorized' });
    }
    const key = authHeader.split(' ')[1];
    try {
      const apiKey = await APIKey.findOne({ key });
      if (!apiKey) { return res.status(401).json({ error: 'Invalid API key' }); }
      req.user = apiKey.user;
      next();
    } catch (error) {
      res.status(500).json({ error: 'Server error' });
    }
  };
  \<close>
  \<open>next\<close> is the rest of the router, given the user the key belongs to.
\<close>

definition auth ::
  "(string option \<Rightarrow> lookup) \<Rightarrow> request \<Rightarrow> (string \<Rightarrow> outcome \<times> effect list) \<Rightarrow>
     outcome \<times> effect list" where
  "auth findOne req next =
     (case authorization req of
        None \<Rightarrow> (Responded (error_response 401 ''Unauthorized''), [])
      | Some authHeader \<Rightarrow>
          if authHeader = [] \<or> \<not> startsWith authHeader ''Bearer ''
          then (Responded (error_response 401 ''Unauthorized''), [])
          else (case findOne (key_of authHeader) of
                  Absent \<Rightarrow>
                    (Responded (error_response 401 ''Invalid API key''),
                     [FindOne (key_of authHeader)])
                | Found user \<Rightarrow>
                    (fst (next user), FindOne (key_of authHeader) # snd (next user))
                | Failed \<Rightarrow>
                    (Responded (error_response 500 ''Server error''),
                     [FindOne (key_of authHeader)])))"

definition posted :: "outcome \<times> upstream_request list \<Rightarrow> outcome \<times> effect list" where
  "posted r = (fst r, map Post (snd r))"

text \<open>
  The four routers, each \<^verbatim>\<open>router.use(auth)\<close> followed by its \<^verbatim>\<open>router.post\<close> routes; \<open>sub\<close>
  is the path below the mount point.
\<close>

definition chat_router ::
  "env \<Rightarrow> (string option \<Rightarrow> lookup) \<Rightarrow> (upstream_request \<Rightarrow> axios_result) \<Rightarrow> request \<Rightarrow>
     string list \<Rightarrow> outcome \<times> effect list" where
  "chat_router env findOne post req sub =
     auth findOne req (\<lambda>user.
       if verb req = POST \<and> sub = [''completions'']
       then posted (chat_completions env post (req_body req))
       else (NotFound, []))"

definition images_router ::
  "env \<Rightarrow> (string option \<Rightarrow> lookup) \<Rightarrow> (upstream_request \<Rightarrow> axios_result) \<Rightarrow> request \<Rightarrow>
     string list \<Rightarrow> outcome \<times> effect list" where
  "images_router env findOne post req sub =
     auth findOne req (\<lambda>user.
       if verb req = POST \<and> sub = [''generations'']
       then posted (images_generations env post (req_body req))
       else if verb req = POST \<and> sub = [''edits'']
       then posted (images_edits env post (req_body req))
       else if verb req = POST \<and> sub = [''variations'']
       then posted (images_variations env post (req_body req))
       else (NotFound, []))"

definition audio_router ::
  "env \<Rightarrow> (string option \<Rightarrow> lookup) \<Rightarrow> (upstream_request \<Rightarrow> axios_result) \<Rightarrow> request \<Rightarrow>
     string list \<Rightarrow> outcome \<times> effect list" where
  "audio_router env findOne post req sub =
     auth findOne req (\<lambda>user.
       if verb req = POST \<and> sub = [''transcriptions'']
       then posted (audio_transcriptions env post (req_body req))
       else if verb req = POST \<and> sub = [''translations'']
       then posted (audio_translations env post (req_body req))
       else if verb req = POST \<and> sub = [''speech'']
       then posted (audio_speech env post (req_body req))
       else (NotFound, []))"

definition embeddings_router ::
  "env \<Rightarrow> (string option \<Rightarrow> lookup) \<Rightarrow> (upstream_request \<Rightarrow> axios_result) \<Rightarrow> request \<Rightarrow>
     string list \<Rightarrow> outcome \<times> effect list" where
  "embeddings_router env findOne post req sub =
     auth findOne req (\<lambda>user.
       if verb req = POST \<and> sub = []
       then posted (embeddings env post (req_body req))
       else (NotFound, []))"

text \<open>
  The routes of the app, in the order of \<^verbatim>\<open>server.js\<close>:
  \<^verbatim>\<open>
  app.use('/v1/chat', require('./routes/chat'));
  app.use('/v1/images', require('./routes/images'));
  app.use('/v1/audio', require('./routes/audio'));
  app.use('/v1/embeddings', require('./routes/embeddings'));
  app.use('/auth', require('./routes/auth'));
  app.use('/keys', require('./routes/keys'));
  app.get('/v1/models', (req, res) => { ... });
  app.get('/', (req, res) => { res.json({ message: 'Zhenbah Hub API is running' }); });
  \<close>
  A mount point takes every path that starts with its segments. The world outside is a
  record of parameters: the environment, the key store, the upstream, the clock and the
  table of models.
\<close>

record world =
  env_of :: env
  findOne_of :: "string option \<Rightarrow> lookup"
  post_of :: "upstream_request \<Rightarrow> axios_result"
  clock_of :: "nat \<Rightarrow> int"
  models_of :: models_table

definition routes :: "world \<Rightarrow> request \<Rightarrow> outcome \<times> effect list" where
  "routes w req =
     (if take 2 (path req) = [''v1'', ''chat'']
      then chat_router (env_of w) (findOne_of w) (post_of w) req (drop 2 (path req))
      else if take 2 (path req) = [''v1'', ''images'']
      then images_router (env_of w) (findOne_of w) (post_of w) req (drop 2 (path req))
      else if take 2 (path req) = [''v1'', ''audio'']
      then audio_router (env_of w) (findOne_of w) (post_of w) req (drop 2 (path req))
      else if take 2 (path req) = [''v1'', ''embeddings'']
      then embeddings_router (env_of w) (findOne_of w) (post_of w) req (drop 2 (path req))
      else if take 1 (path req) = [''auth''] \<or> take 1 (path req) = [''keys'']
      then (Other_router, [])
      else if verb req = GET \<and> path req = [''v1'', ''models'']
      then (Responded (v1_models (clock_of w) (models_of w)), [])
      else if verb req = GET \<and> path req = []
      then (Responded \<lparr>code = 200,
                        payload = JObj [(''message'', JStr ''Zhenbah Hub API is running'')]\<rparr>, [])
      else (NotFound, []))"

text \<open>The paths below the four mount points whose router starts with \<open>auth\<close>.\<close>

definition behind_auth :: "string list \<Rightarrow> bool" where
  "behind_auth p =
     (take 2 p = [''v1'', ''chat''] \<or> take 2 p = [''v1'', ''images''] \<or>
      take 2 p = [''v1'', ''audio''] \<or> take 2 p = [''v1'', ''embeddings''])"

text \<open>Concrete surroundings for the examples: an empty key store, and a request with no
  \<^verbatim>\<open>Authorization\<close> header for the listing of the models.\<close>

definition empty_store :: "string option \<Rightarrow> lookup" where
  "empty_store key = Absent"

definition sample_world :: world where
  "sample_world =
     \<lparr>env_of = no_env, findOne_of = empty_store, post_of = upstream_down,
      clock_of = fixed_clock, models_of = [(''text'', [(''openai'', [''gpt-4''])])]\<rparr>"

definition anonymous_request :: "verb \<Rightarrow> string list \<Rightarrow> request" where
  "anonymous_request v p =
     \<lparr>verb = v, path = p, ip = ''203.0.113.7'', arrived = 0, authorization = None,
      req_body = JObj []\<rparr>"

definition bearer_request :: "string \<Rightarrow> string list \<Rightarrow> json \<Rightarrow> request" where
  "bearer_request token p b =
     \<lparr>verb = POST, path = p, ip = ''203.0.113.7'', arrived = 0,
      authorization = Some (''Bearer '' @ token), req_body = b\<rparr>"


section \<open>The rate limiter and the app\<close>

text \<open>
  The limiter is configured in \<^verbatim>\<open>server.js\<close> and mounted before every route:
  \<^verbatim>\<open>
  const limiter = rateLimit({
    windowMs: 15 * 60 * 1000, // 15 minutes
    max: 100, // limit each IP to 100 requests per windowMs
    standardHeaders: true,
    legacyHeaders: false,
    skip: (req) => { return process.env.NODE_ENV === 'development'; }
  });
  app.use(limiter);
  \<close>
\<close>

definition windowMs :: nat where
  "windowMs = 15 * 60 * 1000"

definition max_requests :: nat where
  "max_requests = 100"

definition skip :: "env \<Rightarrow> request \<Rightarrow> bool" where
  "skip env req = (env ''NODE_ENV'' = Some ''development'')"

text \<open>
  The state of the limiter: when the current window started, and how many requests each
  source address has made in it.
\<close>

record limiter_state =
  window_start :: nat
  hits :: "string \<Rightarrow> nat"

definition fresh_window :: "nat \<Rightarrow> limiter_state" where
  "fresh_window t = \<lparr>window_start = t, hits = (\<lambda>a. 0)\<rparr>"

text \<open>
  Modelled from the spec: the middleware that \<^verbatim>\<open>rateLimit(options)\<close> of the package
  \<^verbatim>\<open>express-rate-limit\<close> returns; the package is not among the sources, only its options
  are. The specification: a process-wide fixed window, a cap of requests per source IP in
  the window, requests exceeding the cap rejected with 429 before any downstream work,
  and no limiting at all when the request is skipped. The result is whether the request
  may pass, and the new state. A request that arrives after the window has ended opens
  the window it falls into, with every count at zero. The counter is updated in one step
  per request: requests are taken one after the other.
\<close>

definition rateLimit ::
  "nat \<Rightarrow> nat \<Rightarrow> bool \<Rightarrow> limiter_state \<Rightarrow> request \<Rightarrow> bool \<times> limiter_state" where
  "rateLimit window cap skipped st req =
     (if skipped then (True, st)
      else
        let st1 = (if window_start st + window \<le> arrived req
                   then fresh_window
                          (window_start st + ((arrived req - window_start st) div window) * window)
                   else st);
            n = Suc (hits st1 (ip req))
        in (n \<le> cap, st1\<lparr>hits := (hits st1)(ip req := n)\<rparr>))"

text \<open>
  Modelled from the spec: the response of the limiter to a request over the cap. The
  specification fixes its status, 429; the body is the default message of the package.
\<close>

definition too_many_requests :: http_response where
  "too_many_requests =
     \<lparr>code = 429, payload = JStr ''Too many requests, please try again later.''\<rparr>"

definition limiter :: "env \<Rightarrow> limiter_state \<Rightarrow> request \<Rightarrow> bool \<times> limiter_state" where
  "limiter env st req = rateLimit windowMs max_requests (skip env req) st req"

text \<open>
  The app: the limiter, then the routes. (\<^verbatim>\<open>helmet\<close>, \<^verbatim>\<open>cors\<close> and \<^verbatim>\<open>express.json\<close> come
  first and let every request with a well-formed body through.)
\<close>

definition app :: "world \<Rightarrow> limiter_state \<Rightarrow> request \<Rightarrow> (outcome \<times> effect list) \<times> limiter_state" where
  "app w st req =
     (let (pass, st') = limiter (env_of w) st req
      in if pass then (routes w req, st')
         else ((Responded too_many_requests, []), st'))"

fun serve :: "world \<Rightarrow> limiter_state \<Rightarrow> request list \<Rightarrow>
    (outcome \<times> effect list) list \<times> limiter_state" where
  "serve w st [] = ([], st)"
| "serve w st (req # reqs) =
     (case app w st req of
        (out, st') \<Rightarrow> (case serve w st' reqs of (outs, st'') \<Rightarrow> (out # outs, st'')))"

definition from_address :: "string \<Rightarrow> request list \<Rightarrow> nat" where
  "from_address a reqs = length (filter (\<lambda>r. ip r = a) reqs)"

definition in_window :: "limiter_state \<Rightarrow> request \<Rightarrow> bool" where
  "in_window st req =
     (window_start st \<le> arrived req \<and> arrived req < window_start st + windowMs)"


section \<open>Verified properties\<close>

subsection \<open>The resilient caller\<close>

lemma not_ok_429: "status r = 429 \<Longrightarrow> \<not> ok r"
  by (simp add: ok_def)

lemma loop_return:
  "attempt \<le> maxRetries \<Longrightarrow> fetch attempt = Resolves r \<Longrightarrow> ok r \<or> status r \<noteq> 429 \<Longrightarrow>
   makeApiCall_loop fetch maxRetries attempt tr = (Returned r, tr @ [Fetch attempt])"
  using makeApiCall_loop.simps[of fetch maxRetries attempt tr] by simp

lemma loop_retry:
  "attempt < maxRetries \<Longrightarrow> retryable (fetch attempt) \<Longrightarrow>
   makeApiCall_loop fetch maxRetries attempt tr =
   makeApiCall_loop fetch maxRetries (Suc attempt) (tr @ [Fetch attempt, Wait (1000 * attempt)])"
  using makeApiCall_loop.simps[of fetch maxRetries attempt tr]
  by (cases "fetch attempt") (simp_all add: not_ok_429)

lemma loop_past_end:
  "maxRetries < attempt \<Longrightarrow>
   makeApiCall_loop fetch maxRetries attempt tr = (Threw (Error ''Max retries exceeded''), tr)"
  using makeApiCall_loop.simps[of fetch maxRetries attempt tr] by simp

lemma loop_last_429:
  "fetch maxRetries = Resolves r \<Longrightarrow> status r = 429 \<Longrightarrow>
   makeApiCall_loop fetch maxRetries maxRetries tr =
     (Threw (Error ''Max retries exceeded''), tr @ [Fetch maxRetries])"
  using makeApiCall_loop.simps[of fetch maxRetries maxRetries tr]
  by (simp add: not_ok_429 loop_past_end)

lemma loop_last_reject:
  "fetch maxRetries = Rejects e \<Longrightarrow>
   makeApiCall_loop fetch maxRetries maxRetries tr = (Threw (Rethrown e), tr @ [Fetch maxRetries])"
  using makeApiCall_loop.simps[of fetch maxRetries maxRetries tr] by simp

lemma backoff_trace_step:
  "a < m \<Longrightarrow> backoff_trace a m = [Fetch a, Wait (1000 * a)] @ backoff_trace (Suc a) m"
  by (simp add: backoff_trace_def upt_conv_Cons)

lemma loop_retry_all:
  "a \<le> m \<Longrightarrow> (\<And>k. a \<le> k \<Longrightarrow> k < m \<Longrightarrow> retryable (fetch k)) \<Longrightarrow>
   makeApiCall_loop fetch m a tr = makeApiCall_loop fetch m m (tr @ backoff_trace a m)"
proof (induction "m - a" arbitrary: a tr)
  case 0
  then show ?case by (simp add: backoff_trace_def)
next
  case (Suc d)
  then have lt: "a < m" by simp
  have r: "retryable (fetch a)" using Suc.prems(2)[of a] lt by simp
  have step: "makeApiCall_loop fetch m a tr =
        makeApiCall_loop fetch m (Suc a) (tr @ [Fetch a, Wait (1000 * a)])"
    using lt r by (rule loop_retry)
  have d: "d = m - Suc a" using Suc.hyps(2) by simp
  have le: "Suc a \<le> m" using lt by simp
  have rest: "makeApiCall_loop fetch m (Suc a) (tr @ [Fetch a, Wait (1000 * a)]) =
     makeApiCall_loop fetch m m ((tr @ [Fetch a, Wait (1000 * a)]) @ backoff_trace (Suc a) m)"
    using Suc.hyps(1)[OF d le] Suc.prems(2) by simp
  show ?case using step rest backoff_trace_step[OF lt] by simp
qed

lemma attempts_append: "attempts (xs @ ys) = attempts xs + attempts ys"
  by (induction xs rule: attempts.induct) simp_all

lemma waits_append: "waits (xs @ ys) = waits xs @ waits ys"
  by (induction xs rule: waits.induct) simp_all

lemma attempts_backoff_trace: "attempts (backoff_trace a m) = m - a"
proof (induction "m - a" arbitrary: a)
  case 0
  then show ?case by (simp add: backoff_trace_def)
next
  case (Suc d)
  then have lt: "a < m" by simp
  have "attempts (backoff_trace (Suc a) m) = m - Suc a"
    using Suc.hyps(1)[of "Suc a"] Suc.hyps(2) by simp
  then show ?case using lt by (simp add: backoff_trace_step[OF lt])
qed

lemma waits_backoff_trace: "waits (backoff_trace a m) = map (\<lambda>k. 1000 * k) [a..<m]"
proof (induction "m - a" arbitrary: a)
  case 0
  then show ?case by (simp add: backoff_trace_def)
next
  case (Suc d)
  then have lt: "a < m" by simp
  have "waits (backoff_trace (Suc a) m) = map (\<lambda>k. 1000 * k) [Suc a..<m]"
    using Suc.hyps(1)[of "Suc a"] Suc.hyps(2) by simp
  then show ?case using lt by (simp add: backoff_trace_step[OF lt] upt_conv_Cons)
qed

text \<open>
  Claim C2. A response that is successful (2xx), or whose status is anything other than
  429 (400 and 401 included), is returned by \<open>makeApiCall\<close> after exactly one call of
  \<^verbatim>\<open>fetch\<close>: the trace holds the first attempt and nothing else, so there is no retry and
  no backoff wait.
\<close>

theorem makeApiCall_returns_non_429_at_once:
  assumes "fetch 1 = Resolves r" and "ok r \<or> status r \<noteq> 429" and "1 \<le> maxRetries"
  shows "makeApiCall fetch maxRetries = (Returned r, [Fetch 1]) \<and>
         attempts (snd (makeApiCall fetch maxRetries)) = 1 \<and>
         waits (snd (makeApiCall fetch maxRetries)) = []"
  using assms loop_return[of 1 maxRetries fetch r "[]"] by (simp add: makeApiCall_def)

theorem makeApiCall_returns_non_429_at_once_witness:
  "makeApiCall (scripted [Resolves \<lparr>status = 400, body = ''bad request''\<rparr>]) default_maxRetries =
     (Returned \<lparr>status = 400, body = ''bad request''\<rparr>, [Fetch 1]) \<and>
   makeApiCall (scripted [Resolves \<lparr>status = 401, body = ''no''\<rparr>,
                          Resolves \<lparr>status = 200, body = ''late''\<rparr>]) default_maxRetries =
     (Returned \<lparr>status = 401, body = ''no''\<rparr>, [Fetch 1])"
  using makeApiCall_returns_non_429_at_once
      [of "scripted [Resolves \<lparr>status = 400, body = ''bad request''\<rparr>]"
          "\<lparr>status = 400, body = ''bad request''\<rparr>" default_maxRetries]
    makeApiCall_returns_non_429_at_once
      [of "scripted [Resolves \<lparr>status = 401, body = ''no''\<rparr>,
                     Resolves \<lparr>status = 200, body = ''late''\<rparr>]"
          "\<lparr>status = 401, body = ''no''\<rparr>" default_maxRetries]
  by (simp add: scripted_def default_maxRetries_def)

text \<open>
  Claim C3. When the upstream answers 429 on the first attempt, 429 on the second and 200
  on the third, \<open>makeApiCall\<close> with the default of three attempts calls \<^verbatim>\<open>fetch\<close> exactly
  three times, waits 1 * 1000 ms after the first attempt and 2 * 1000 ms after the second,
  and returns the 200 response.
\<close>

theorem makeApiCall_429_429_200:
  assumes "fetch 1 = Resolves r1" and "status r1 = 429"
    and "fetch 2 = Resolves r2" and "status r2 = 429"
    and "fetch 3 = Resolves r3" and "status r3 = 200"
  shows "makeApiCall fetch default_maxRetries =
           (Returned r3, [Fetch 1, Wait (1 * 1000), Fetch 2, Wait (2 * 1000), Fetch 3])"
proof -
  have s1: "makeApiCall_loop fetch 3 1 [] =
            makeApiCall_loop fetch 3 (Suc 1) ([] @ [Fetch 1, Wait (1000 * 1)])"
    by (rule loop_retry) (use assms in simp_all)
  have s2: "makeApiCall_loop fetch 3 2 [Fetch 1, Wait 1000] =
            makeApiCall_loop fetch 3 (Suc 2) ([Fetch 1, Wait 1000] @ [Fetch 2, Wait (1000 * 2)])"
    by (rule loop_retry) (use assms in simp_all)
  have s3: "makeApiCall_loop fetch 3 3 [Fetch 1, Wait 1000, Fetch 2, Wait 2000] =
            (Returned r3, [Fetch 1, Wait 1000, Fetch 2, Wait 2000] @ [Fetch 3])"
    by (rule loop_return) (use assms in \<open>simp_all add: ok_def\<close>)
  show ?thesis
    using s1 s2 s3
    by (simp add: makeApiCall_def default_maxRetries_def numeral_2_eq_2 numeral_3_eq_3)
qed

theorem makeApiCall_429_429_200_witness:
  "makeApiCall (scripted [Resolves \<lparr>status = 429, body = ''slow down''\<rparr>,
                          Resolves \<lparr>status = 429, body = ''slow down''\<rparr>,
                          Resolves \<lparr>status = 200, body = ''done''\<rparr>]) default_maxRetries =
     (Returned \<lparr>status = 200, body = ''done''\<rparr>,
      [Fetch 1, Wait 1000, Fetch 2, Wait 2000, Fetch 3])"
  using makeApiCall_429_429_200
      [of "scripted [Resolves \<lparr>status = 429, body = ''slow down''\<rparr>,
                     Resolves \<lparr>status = 429, body = ''slow down''\<rparr>,
                     Resolves \<lparr>status = 200, body = ''done''\<rparr>]"
          "\<lparr>status = 429, body = ''slow down''\<rparr>"
          "\<lparr>status = 429, body = ''slow down''\<rparr>"
          "\<lparr>status = 200, body = ''done''\<rparr>"]
  by (simp add: scripted_def)

text \<open>
  Claim C4. A rejected \<^verbatim>\<open>fetch\<close> (a transport-level exception) on an attempt before the
  last is retried exactly as a 429 response is: either way the loop waits 1000 ms times
  the attempt number and goes on to the next attempt. When every attempt before the
  last was retried, the last attempt decides: a rejection is thrown on to the caller
  unchanged, and a 429 response is not returned but ends in the error
  \<^verbatim>\<open>Max retries exceeded\<close>. In both cases \<^verbatim>\<open>fetch\<close> was called \<open>maxRetries\<close> times, with the
  waits 1000, 2000, ... between the attempts and none after the last.
\<close>

theorem makeApiCall_retries_exhausted:
  assumes "1 \<le> maxRetries"
    and "\<forall>k. 1 \<le> k \<and> k < maxRetries \<longrightarrow> retryable (fetch k)"
    and "retryable (fetch maxRetries)"
  shows "makeApiCall fetch maxRetries =
           ((case fetch maxRetries of
               Rejects e \<Rightarrow> Threw (Rethrown e)
             | Resolves r \<Rightarrow> Threw (Error ''Max retries exceeded'')),
            backoff_trace 1 maxRetries @ [Fetch maxRetries]) \<and>
         attempts (snd (makeApiCall fetch maxRetries)) = maxRetries \<and>
         waits (snd (makeApiCall fetch maxRetries)) = map (\<lambda>k. 1000 * k) [1..<maxRetries]"
proof -
  have run: "makeApiCall_loop fetch maxRetries 1 [] =
             makeApiCall_loop fetch maxRetries maxRetries ([] @ backoff_trace 1 maxRetries)"
    by (rule loop_retry_all) (use assms in simp_all)
  have res: "makeApiCall fetch maxRetries =
           ((case fetch maxRetries of
               Rejects e \<Rightarrow> Threw (Rethrown e)
             | Resolves r \<Rightarrow> Threw (Error ''Max retries exceeded'')),
            backoff_trace 1 maxRetries @ [Fetch maxRetries])"
  proof (cases "fetch maxRetries")
    case (Resolves r)
    then have "status r = 429" using assms(3) by simp
    then show ?thesis
      using run Resolves loop_last_429[of fetch maxRetries r "backoff_trace 1 maxRetries"]
      by (simp add: makeApiCall_def)
  next
    case (Rejects e)
    then show ?thesis
      using run loop_last_reject[of fetch maxRetries e "backoff_trace 1 maxRetries"]
      by (simp add: makeApiCall_def)
  qed
  show ?thesis
    using assms(1)
    by (simp add: res attempts_append waits_append attempts_backoff_trace waits_backoff_trace)
qed

theorem makeApiCall_retries_exhausted_witness:
  "makeApiCall (scripted [Rejects ''ENOTFOUND'', Resolves \<lparr>status = 429, body = ''busy''\<rparr>,
                          Rejects ''ECONNRESET'']) default_maxRetries =
     (Threw (Rethrown ''ECONNRESET''), [Fetch 1, Wait 1000, Fetch 2, Wait 2000, Fetch 3]) \<and>
   makeApiCall (scripted [Resolves \<lparr>status = 429, body = ''busy''\<rparr>, Rejects ''ENOTFOUND'',
                          Resolves \<lparr>status = 429, body = ''busy''\<rparr>]) default_maxRetries =
     (Threw (Error ''Max retries exceeded''), [Fetch 1, Wait 1000, Fetch 2, Wait 2000, Fetch 3])"
proof -
  have k: "k = 1 \<or> k = 2" if "1 \<le> k \<and> k < 3" for k :: nat
    using that by arith
  have a: "\<forall>k. 1 \<le> k \<and> k < 3 \<longrightarrow>
        retryable (scripted [Rejects ''ENOTFOUND'', Resolves \<lparr>status = 429, body = ''busy''\<rparr>,
                          Rejects ''ECONNRESET''] k)" (is "\<forall>k. _ \<longrightarrow> retryable (?f k)")
  proof (intro allI impI)
    fix j :: nat
    assume "1 \<le> j \<and> j < 3"
    then have "j = 1 \<or> j = 2" by (rule k)
    then show "retryable (?f j)" by (auto simp: scripted_def)
  qed
  have b: "\<forall>k. 1 \<le> k \<and> k < 3 \<longrightarrow>
        retryable (scripted [Resolves \<lparr>status = 429, body = ''busy''\<rparr>, Rejects ''ENOTFOUND'',
                          Resolves \<lparr>status = 429, body = ''busy''\<rparr>] k)" (is "\<forall>k. _ \<longrightarrow> retryable (?f k)")
  proof (intro allI impI)
    fix j :: nat
    assume "1 \<le> j \<and> j < 3"
    then have "j = 1 \<or> j = 2" by (rule k)
    then show "retryable (?f j)" by (auto simp: scripted_def)
  qed
  have t: "backoff_trace 1 3 = [Fetch 1, Wait 1000, Fetch 2, Wait 2000]"
    by (simp add: backoff_trace_def upt_conv_Cons numeral_3_eq_3 numeral_2_eq_2)
  show ?thesis
    using a b t
      makeApiCall_retries_exhausted
        [of 3 "scripted [Rejects ''ENOTFOUND'', Resolves \<lparr>status = 429, body = ''busy''\<rparr>,
                          Rejects ''ECONNRESET'']"]
      makeApiCall_retries_exhausted
        [of 3 "scripted [Resolves \<lparr>status = 429, body = ''busy''\<rparr>, Rejects ''ENOTFOUND'',
                          Resolves \<lparr>status = 429, body = ''busy''\<rparr>]"]
    by (simp add: scripted_def default_maxRetries_def)
qed

subsection \<open>The key pool\<close>

lemma filter_keys_nonempty_strings: "k \<in> set (filter_keys vs) \<Longrightarrow> k \<noteq> []"
proof -
  assume "k \<in> set (filter_keys vs)"
  then obtain v where v: "v \<in> set vs" "js_Boolean v" "k = the v"
    by (auto simp: filter_keys_def)
  have "the v \<noteq> []" using v(2) by (cases v) simp_all
  then show "k \<noteq> []" using v(3) by simp
qed

text \<open>What the model of doubles means in real numbers.\<close>

lemma unit_double_value:
  assumes "unit_double x"
  shows "0 \<le> value_of x \<and> value_of x < 1"
proof
  show "0 \<le> value_of x" by (simp add: value_of_def)
  have m: "real (mantissa x) < 2 ^ precision"
    using assms unfolding unit_double_def
    by (metis of_nat_less_iff of_nat_numeral of_nat_power)
  have "2 powr real_of_int (exponent x) \<le> 2 powr (- real precision)"
    using assms by (simp add: unit_double_def)
  then have "value_of x \<le> real (mantissa x) * 2 powr (- real precision)"
    unfolding value_of_def by (intro mult_left_mono) simp_all
  also have "\<dots> < 2 ^ precision * 2 powr (- real precision)"
    using m by (intro mult_strict_right_mono) simp_all
  also have "\<dots> = 1" by (simp add: powr_minus powr_realpow)
  finally show "value_of x < 1" .
qed

lemma Math_floor_value: "Math_floor d = nat \<lfloor>value_of d\<rfloor>"
proof (cases "0 \<le> exponent d")
  case True
  then have "2 powr real_of_int (exponent d) = 2 ^ nat (exponent d)"
    by (simp add: powr_realpow[symmetric])
  then have "value_of d = real (mantissa d * 2 ^ nat (exponent d))"
    by (simp add: value_of_def)
  then show ?thesis using True by (simp only: Math_floor_def if_True floor_of_nat nat_int)
next
  case False
  define k where "k = nat (- exponent d)"
  have e: "real_of_int (exponent d) = - real k" using False by (simp add: k_def)
  have "2 powr real_of_int (exponent d) = 1 / 2 ^ k"
    unfolding e by (simp add: powr_minus powr_realpow divide_inverse)
  then have "value_of d = real (mantissa d) / real (2 ^ k)"
    by (simp add: value_of_def)
  then have "\<lfloor>value_of d\<rfloor> = int (mantissa d div 2 ^ k)"
    by (simp only: floor_divide_of_nat_eq)
  then show ?thesis using False by (simp add: Math_floor_def k_def)
qed

lemma bit_length_upper: "n < 2 ^ bit_length n"
proof (induction n rule: bit_length.induct)
  case (1 n)
  show ?case
  proof (cases "n = 0")
    case True
    then show ?thesis by (simp add: bit_length.simps[of n])
  next
    case False
    then have "n div 2 < 2 ^ bit_length (n div 2)" using 1 by simp
    then have "n < 2 * 2 ^ bit_length (n div 2)" by linarith
    then show ?thesis using False by (simp add: bit_length.simps[of n])
  qed
qed

lemma bit_length_lower: "0 < n \<Longrightarrow> 2 ^ (bit_length n - 1) \<le> n"
proof (induction n rule: bit_length.induct)
  case (1 n)
  then have n: "n \<noteq> 0" by simp
  show ?case
  proof (cases "n div 2 = 0")
    case True
    then have "bit_length n = 1"
      using n by (simp add: bit_length.simps[of n] bit_length.simps[of 0])
    then show ?thesis using n by simp
  next
    case False
    then have ih: "2 ^ (bit_length (n div 2) - 1) \<le> n div 2" using 1 n by simp
    have pos: "0 < bit_length (n div 2)"
      using False by (simp add: bit_length.simps[of "n div 2"])
    have "bit_length n - 1 = Suc (bit_length (n div 2) - 1)"
      using n pos by (simp add: bit_length.simps[of n])
    then have "(2::nat) ^ (bit_length n - 1) = 2 * 2 ^ (bit_length (n div 2) - 1)" by simp
    also have "\<dots> \<le> 2 * (n div 2)" using ih by simp
    also have "\<dots> \<le> n" by simp
    finally show ?thesis .
  qed
qed

lemma bit_length_eq:
  assumes "0 < k" and "2 ^ (k - 1) \<le> n" and "n < 2 ^ k"
  shows "bit_length n = k"
proof -
  have n: "0 < n" using assms(2) by (cases "n = 0") simp_all
  have up: "n < 2 ^ bit_length n" by (rule bit_length_upper)
  have lo: "2 ^ (bit_length n - 1) \<le> n" using n by (rule bit_length_lower)
  have b: "0 < bit_length n" using n by (simp add: bit_length.simps[of n])
  have "(2::nat) ^ (k - 1) < 2 ^ bit_length n" using assms(2) up by linarith
  then have 1: "k - 1 < bit_length n" by simp
  have "(2::nat) ^ (bit_length n - 1) < 2 ^ k" using lo assms(3) by linarith
  then have 2: "bit_length n - 1 < k" by simp
  show ?thesis using 1 2 assms(1) b by linarith
qed

lemma half_power: "0 < s \<Longrightarrow> (2::nat) ^ s div 2 = 2 ^ (s - 1)"
  by (cases s) simp_all

text \<open>Rounding moves the product by at most half a unit of the digit it rounds to.\<close>

lemma round_half_even_upper:
  "round_half_even p s * 2 ^ s \<le> p + 2 ^ s div 2"
proof (cases "s = 0")
  case True
  then show ?thesis by (simp add: round_half_even_def)
next
  case False
  define q where "q = p div 2 ^ s"
  define r where "r = p mod 2 ^ s"
  define h where "h = (2::nat) ^ (s - 1)"
  have p: "p = q * 2 ^ s + r" unfolding q_def r_def by (rule div_mult_mod_eq[symmetric])
  have half: "(2::nat) ^ s div 2 = h"
    using False by (simp add: half_power h_def)
  have two: "(2::nat) ^ s = 2 * h"
    unfolding h_def using False by (cases s) simp_all
  show ?thesis
  proof (cases "h < r \<or> (r = h \<and> odd q)")
    case True
    then have up: "round_half_even p s = q + 1"
      using False by (simp add: round_half_even_def q_def r_def h_def Let_def)
    have hr: "h \<le> r" using True by auto
    have "(q + 1) * (2 * h) = q * (2 * h) + 2 * h" by (simp add: algebra_simps)
    also have "\<dots> \<le> q * (2 * h) + r + h" using hr by simp
    finally have "(q + 1) * 2 ^ s \<le> q * 2 ^ s + r + h" by (simp only: two)
    then have "(q + 1) * 2 ^ s \<le> p + h" by (simp only: p)
    then show ?thesis by (simp only: up half)
  next
    case False
    then have "round_half_even p s = q"
      using \<open>s \<noteq> 0\<close> by (simp add: round_half_even_def q_def r_def h_def Let_def)
    then show ?thesis by (simp add: p)
  qed
qed

lemma round_half_even_lower:
  "p \<le> round_half_even p s * 2 ^ s + 2 ^ s div 2"
proof (cases "s = 0")
  case True
  then show ?thesis by (simp add: round_half_even_def)
next
  case False
  define q where "q = p div 2 ^ s"
  define r where "r = p mod 2 ^ s"
  define h where "h = (2::nat) ^ (s - 1)"
  have p: "p = q * 2 ^ s + r" unfolding q_def r_def by (rule div_mult_mod_eq[symmetric])
  have half: "(2::nat) ^ s div 2 = h"
    using False by (simp add: half_power h_def)
  have r: "r < 2 ^ s" by (simp add: r_def)
  show ?thesis
  proof (cases "h < r \<or> (r = h \<and> odd q)")
    case True
    then have up: "round_half_even p s = q + 1"
      using False by (simp add: round_half_even_def q_def r_def h_def Let_def)
    have "q * 2 ^ s + r \<le> (q + 1) * 2 ^ s + h" using r by (simp add: algebra_simps)
    then have "p \<le> (q + 1) * 2 ^ s + h" by (simp only: p)
    then show ?thesis by (simp only: up half)
  next
    case False
    then have down: "round_half_even p s = q"
      using \<open>s \<noteq> 0\<close> by (simp add: round_half_even_def q_def r_def h_def Let_def)
    have "r \<le> h" using False by auto
    then have "q * 2 ^ s + r \<le> q * 2 ^ s + h" by simp
    then have "p \<le> q * 2 ^ s + h" by (simp only: p)
    then show ?thesis by (simp only: down half)
  qed
qed

text \<open>
  The rounded product of a double below 1 and the length \<open>n\<close> stays below \<open>n\<close>: the exact
  product is at least \<open>n / 2 ^ 53\<close> below \<open>n\<close>, which is more than half a unit of its last
  digit.
\<close>

lemma product_below_length:
  assumes "unit_double x" and "0 < n"
  shows "mantissa (times_length x n) * 2 ^ (bit_length (mantissa x * n) - precision)
           < n * 2 ^ precision"
proof -
  define p where "p = mantissa x * n"
  define s where "s = bit_length p - precision"
  define P where "P = (2::nat) ^ precision"
  have m: "mantissa x + 1 \<le> P" using assms(1) by (simp add: unit_double_def P_def)
  have "(mantissa x + 1) * n \<le> P * n" using m by (rule mult_le_mono1)
  then have pn: "p + n \<le> n * P" by (simp add: p_def algebra_simps)
  have q: "mantissa (times_length x n) = round_half_even p s"
    by (simp add: times_length_def p_def s_def Let_def)
  have "round_half_even p s * 2 ^ s < n * P"
  proof (cases "s = 0")
    case True
    then show ?thesis using pn assms(2) by (simp add: round_half_even_def)
  next
    case False
    have prec: "0 < precision" by (simp add: precision_def)
    have bl: "bit_length p - 1 = (s - 1) + precision"
      using False prec by (simp add: s_def)
    have "0 < p" using False by (cases "p = 0") (simp_all add: s_def bit_length.simps[of 0])
    then have "2 ^ ((s - 1) + precision) \<le> p" using bit_length_lower[of p] bl by simp
    then have "2 ^ (s - 1) * P \<le> p" by (simp add: power_add P_def)
    then have "2 ^ (s - 1) * P < n * P" using pn assms(2) by linarith
    then have "2 ^ (s - 1) < n" by simp
    then have "p + 2 ^ s div 2 < p + n" using False by (simp add: half_power)
    then show ?thesis using round_half_even_upper[of p s] pn by linarith
  qed
  then show ?thesis by (simp add: q s_def p_def P_def)
qed

lemma Math_floor_below_length:
  assumes "unit_double x" and "0 < n"
  shows "Math_floor (times_length x n) < n"
proof -
  define s where "s = bit_length (mantissa x * n) - precision"
  define q where "q = mantissa (times_length x n)"
  define k where "k = nat (- exponent x)"
  have e: "exponent x = - int k" and k: "precision \<le> k"
    using assms(1) unfolding unit_double_def k_def by linarith+
  have E: "exponent (times_length x n) = int s - int k"
    by (simp add: times_length_def s_def e Let_def)
  have "q * 2 ^ s < n * 2 ^ precision"
    unfolding q_def s_def using assms by (rule product_below_length)
  also have "n * (2::nat) ^ precision \<le> n * 2 ^ k" using k by (simp add: power_increasing)
  finally have b: "q * 2 ^ s < n * 2 ^ k" .
  show ?thesis
  proof (cases "k \<le> s")
    case True
    then have f: "Math_floor (times_length x n) = q * 2 ^ (s - k)"
      by (simp add: Math_floor_def E q_def nat_diff_distrib)
    have "(2::nat) ^ s = 2 ^ (s - k) * 2 ^ k" using True by (simp add: power_add[symmetric])
    then have "(q * 2 ^ (s - k)) * 2 ^ k < n * 2 ^ k" using b by (simp add: mult.assoc)
    then show ?thesis by (simp add: f)
  next
    case False
    then have f: "Math_floor (times_length x n) = q div 2 ^ (k - s)"
      by (simp add: Math_floor_def E q_def nat_diff_distrib)
    have "(2::nat) ^ k = 2 ^ (k - s) * 2 ^ s" using False by (simp add: power_add[symmetric])
    then have "q * 2 ^ s < (n * 2 ^ (k - s)) * 2 ^ s" using b by (simp add: mult.assoc)
    then have "q < n * 2 ^ (k - s)" by simp
    then show ?thesis by (simp add: f less_mult_imp_div_less)
  qed
qed

text \<open>
  The product of the double nearest to 0.7 and 10 is a tie between two doubles and rounds
  to 7 exactly, so the index is 7 (in real numbers the product would be below 7).
\<close>

lemma seven_tenths_times_ten:
  "times_length seven_tenths 10 = \<lparr>mantissa = 7881299347898368, exponent = - 50\<rparr>"
proof -
  have "bit_length 63050394783186940 = 56"
    by (rule bit_length_eq) simp_all
  then show ?thesis
    by (simp add: times_length_def seven_tenths_def precision_def round_half_even_def)
qed

lemma one_half_times_two:
  "times_length one_half 2 = \<lparr>mantissa = 4503599627370496, exponent = - 52\<rparr>"
proof -
  have "bit_length 9007199254740992 = 54"
    by (rule bit_length_eq) simp_all
  then show ?thesis
    by (simp add: times_length_def one_half_def precision_def round_half_even_def)
qed

text \<open>
  Claim C7. On a pool as loaded at startup (\<open>filter_keys\<close> of the configured variables):
  when the pool is empty, \<open>getRandomApiKey\<close> gives \<^verbatim>\<open>null\<close> and the draw fails with the
  error \<^verbatim>\<open>No ... API keys available\<close>, whatever \<^verbatim>\<open>Math.random()\<close> returned; when the pool
  is not empty and \<^verbatim>\<open>Math.random()\<close> is a double in [0, 1), the index, which is the floor
  of the rounded product of that double and the length of the pool, is within the bounds
  of the pool, and the draw returns the element of the pool at that index.
\<close>

theorem draw_from_pool:
  assumes "unit_double random" and "keys = filter_keys vs"
  shows "(keys = [] \<longrightarrow>
            getRandomApiKey keys random = Null \<and>
            draw provider keys random = Inl (Error (''No '' @ provider @ '' API keys available''))) \<and>
         (keys \<noteq> [] \<longrightarrow>
            (\<exists>i. i = Math_floor (times_length random (length keys)) \<and>
                 i < length keys \<and>
                 getRandomApiKey keys random = Key (keys ! i) \<and>
                 draw provider keys random = Inr (keys ! i) \<and>
                 keys ! i \<in> set keys))"
proof (intro conjI impI)
  assume "keys = []"
  then show "getRandomApiKey keys random = Null"
    by (simp add: getRandomApiKey_def)
  then show "draw provider keys random = Inl (Error (''No '' @ provider @ '' API keys available''))"
    by (simp add: draw_def no_keys_error_def)
next
  assume ne: "keys \<noteq> []"
  define i where "i = Math_floor (times_length random (length keys))"
  have n: "0 < length keys" using ne by simp
  have lt: "i < length keys"
    unfolding i_def using assms(1) n by (rule Math_floor_below_length)
  have got: "getRandomApiKey keys random = Key (keys ! i)"
    using lt ne by (simp add: getRandomApiKey_def i_def Let_def)
  have mem: "keys ! i \<in> set keys" using lt by simp
  then have "keys ! i \<noteq> []"
    using assms(2) filter_keys_nonempty_strings by blast
  then have drawn: "draw provider keys random = Inr (keys ! i)"
    by (simp add: draw_def got)
  show "\<exists>i. i = Math_floor (times_length random (length keys)) \<and>
                 i < length keys \<and>
                 getRandomApiKey keys random = Key (keys ! i) \<and>
                 draw provider keys random = Inr (keys ! i) \<and>
                 keys ! i \<in> set keys"
    using i_def lt got drawn mem by blast
qed

theorem draw_from_pool_witness:
  "unit_double seven_tenths \<and>
   draw ''A4F'' (filter_keys ten_variables) seven_tenths = Inr ''k7'' \<and>
   draw ''A4F'' (filter_keys [Some ''key-a'', None, Some [], Some ''key-b'']) one_half =
     Inr ''key-b'' \<and>
   draw ''Sarvam'' (filter_keys [None, Some []]) one_half =
     Inl (Error ''No Sarvam API keys available'')"
proof -
  have u: "unit_double seven_tenths" "unit_double one_half"
    by (simp_all add: unit_double_def seven_tenths_def one_half_def precision_def)
  have ten: "filter_keys ten_variables =
      [''k0'', ''k1'', ''k2'', ''k3'', ''k4'', ''k5'', ''k6'', ''k7'', ''k8'', ''k9'']"
    by (simp add: filter_keys_def ten_variables_def)
  have a: "filter_keys [Some ''key-a'', None, Some [], Some ''key-b''] = [''key-a'', ''key-b'']"
    by (simp add: filter_keys_def)
  have b: "filter_keys [None, Some []] = []"
    by (simp add: filter_keys_def)
  have seven: "Math_floor (times_length seven_tenths 10) = 7"
    by (simp add: seven_tenths_times_ten Math_floor_def)
  have one: "Math_floor (times_length one_half 2) = 1"
    by (simp add: one_half_times_two Math_floor_def)
  have l10: "length [''k0'', ''k1'', ''k2'', ''k3'', ''k4'', ''k5'', ''k6'', ''k7'', ''k8'', ''k9'']
      = 10"
    by simp
  have l2: "length [''key-a'', ''key-b''] = 2"
    by simp
  have 1: "draw ''A4F'' (filter_keys ten_variables) seven_tenths = Inr ''k7''"
    using draw_from_pool [OF u(1) ten[symmetric], of "''A4F''"]
    unfolding l10 seven ten by simp
  have 2: "draw ''A4F'' (filter_keys [Some ''key-a'', None, Some [], Some ''key-b'']) one_half =
      Inr ''key-b''"
    using draw_from_pool [OF u(2) a[symmetric], of "''A4F''"]
    unfolding l2 one a by simp
  have 3: "draw ''Sarvam'' (filter_keys [None, Some []]) one_half =
      Inl (Error ''No Sarvam API keys available'')"
    using draw_from_pool [OF u(2) b[symmetric], of "''Sarvam''"]
    unfolding b by simp
  show ?thesis using u(1) 1 2 3 by simp
qed

subsection \<open>The router\<close>

lemma first_match_Nil: "first_match [] m = None"
  by (simp add: first_match_def)

lemma first_match_Cons:
  "first_match ((p, a) # rules) m = (if startsWith m p then Some a else first_match rules m)"
  by (simp add: first_match_def startsWith_def)

lemma select_chat_first_match: "select_chat m = first_match chat_rules m"
  by (simp add: select_chat_def chat_rules_def first_match_Cons first_match_Nil)

lemma select_embeddings_first_match: "select_embeddings m = first_match embedding_rules m"
  by (simp add: select_embeddings_def embedding_rules_def first_match_Cons first_match_Nil)

lemma select_image_first_match: "select_image m = first_match image_rules m"
  by (simp add: select_image_def image_rules_def first_match_Cons first_match_Nil)

lemma select_transcription_first_match:
  "select_transcription m = first_match transcription_rules m"
  by (simp add: select_transcription_def transcription_rules_def first_match_Cons first_match_Nil)

lemma select_speech_first_match: "select_speech m = first_match speech_rules m"
  by (simp add: select_speech_def speech_rules_def first_match_Cons first_match_Nil)

text \<open>
  Claim C1, as amended. On every capability the chain of the handler is the first-match
  walk over its table of rules, in the declared order: the branch entered is the adapter
  of the first rule whose prefix is a prefix of the model identifier, whatever later
  rules would match. When no rule matches, the handler answers 400 and makes no upstream
  call; there is no default adapter. The message of the 400 depends on the route:
  \<^verbatim>\<open>Unsupported model\<close> on chat completions only, and \<^verbatim>\<open>Unsupported embedding model\<close>,
  \<^verbatim>\<open>Unsupported image model\<close>, \<^verbatim>\<open>Unsupported transcription model\<close> and
  \<^verbatim>\<open>Unsupported TTS model\<close> on the others.
\<close>

theorem router_first_match:
  "select_chat m = first_match chat_rules m \<and>
   select_embeddings m = first_match embedding_rules m \<and>
   select_image m = first_match image_rules m \<and>
   select_transcription m = first_match transcription_rules m \<and>
   select_speech m = first_match speech_rules m \<and>
   (model_of b = Some m \<longrightarrow>
      chat_completions env post b =
        (case first_match chat_rules m of
           None \<Rightarrow> (Responded (error_response 400 ''Unsupported model''), [])
         | Some a \<Rightarrow> forward post (chat_request env b m a)) \<and>
      embeddings env post b =
        (case first_match embedding_rules m of
           None \<Rightarrow> (Responded (error_response 400 ''Unsupported embedding model''), [])
         | Some a \<Rightarrow> forward post (embeddings_request env b m a)) \<and>
      images_generations env post b =
        (case first_match image_rules m of
           None \<Rightarrow> (Responded (error_response 400 ''Unsupported image model''), [])
         | Some a \<Rightarrow> forward post (image_request env b m a)) \<and>
      audio_transcriptions env post b =
        (case first_match transcription_rules m of
           None \<Rightarrow> (Responded (error_response 400 ''Unsupported transcription model''), [])
         | Some a \<Rightarrow> forward post (transcription_request env b m a)) \<and>
      audio_speech env post b =
        (case first_match speech_rules m of
           None \<Rightarrow> (Responded (error_response 400 ''Unsupported TTS model''), [])
         | Some a \<Rightarrow> forward post (speech_request env b m a)))"
proof (intro conjI impI)
  show "select_chat m = first_match chat_rules m"
    by (rule select_chat_first_match)
  show "select_embeddings m = first_match embedding_rules m"
    by (rule select_embeddings_first_match)
  show "select_image m = first_match image_rules m"
    by (rule select_image_first_match)
  show "select_transcription m = first_match transcription_rules m"
    by (rule select_transcription_first_match)
  show "select_speech m = first_match speech_rules m"
    by (rule select_speech_first_match)
next
  assume "model_of b = Some m"
  then show "chat_completions env post b =
        (case first_match chat_rules m of
           None \<Rightarrow> (Responded (error_response 400 ''Unsupported model''), [])
         | Some a \<Rightarrow> forward post (chat_request env b m a))"
    unfolding chat_completions_def select_chat_first_match by simp
next
  assume "model_of b = Some m"
  then show "embeddings env post b =
        (case first_match embedding_rules m of
           None \<Rightarrow> (Responded (error_response 400 ''Unsupported embedding model''), [])
         | Some a \<Rightarrow> forward post (embeddings_request env b m a))"
    unfolding embeddings_def select_embeddings_first_match by simp
next
  assume "model_of b = Some m"
  then show "images_generations env post b =
        (case first_match image_rules m of
           None \<Rightarrow> (Responded (error_response 400 ''Unsupported image model''), [])
         | Some a \<Rightarrow> forward post (image_request env b m a))"
    unfolding images_generations_def select_image_first_match by simp
next
  assume "model_of b = Some m"
  then show "audio_transcriptions env post b =
        (case first_match transcription_rules m of
           None \<Rightarrow> (Responded (error_response 400 ''Unsupported transcription model''), [])
         | Some a \<Rightarrow> forward post (transcription_request env b m a))"
    unfolding audio_transcriptions_def select_transcription_first_match by simp
next
  assume "model_of b = Some m"
  then show "audio_speech env post b =
        (case first_match speech_rules m of
           None \<Rightarrow> (Responded (error_response 400 ''Unsupported TTS model''), [])
         | Some a \<Rightarrow> forward post (speech_request env b m a))"
    unfolding audio_speech_def select_speech_first_match by simp
qed

lemma model_of_with_model: "model_of (with_model m) = Some m"
  by (simp add: model_of_def with_model_def)

text \<open>
  The theorem at two requests: \<^verbatim>\<open>code-davinci\<close> on the chat route enters the OpenAI branch
  (the rule \<^verbatim>\<open>code-\<close> comes first), and \<^verbatim>\<open>unknown-model\<close> is refused without an upstream
  call.
\<close>

theorem router_first_match_witness:
  "chat_completions no_env upstream_down (with_model ''code-davinci'') =
     forward upstream_down
       (chat_request no_env (with_model ''code-davinci'') ''code-davinci'' Chat_OpenAI) \<and>
   chat_completions no_env upstream_down (with_model ''unknown-model'') =
     (Responded (error_response 400 ''Unsupported model''), [])"
proof -
  have a: "first_match chat_rules ''code-davinci'' = Some Chat_OpenAI"
    by (simp add: chat_rules_def first_match_Cons startsWith_def)
  have b: "first_match chat_rules ''unknown-model'' = None"
    by (simp add: chat_rules_def first_match_Cons first_match_Nil startsWith_def)
  show ?thesis
    using router_first_match [of "''code-davinci''" "with_model ''code-davinci''" no_env upstream_down]
      router_first_match [of "''unknown-model''" "with_model ''unknown-model''" no_env upstream_down]
    by (simp only: model_of_with_model a b option.case simp_thms)
qed

text \<open>
  Claim C1 as it is worded fails on the embeddings route: a model that no rule matches is
  answered 400 with the message \<^verbatim>\<open>Unsupported embedding model\<close>, not \<^verbatim>\<open>Unsupported model\<close>.
\<close>

theorem unsupported_message_counterexample:
  "first_match embedding_rules ''unknown-model'' = None \<and>
   embeddings no_env upstream_down (with_model ''unknown-model'') =
     (Responded (error_response 400 ''Unsupported embedding model''), []) \<and>
   embeddings no_env upstream_down (with_model ''unknown-model'') \<noteq>
     (Responded (error_response 400 ''Unsupported model''), [])"
proof -
  have none: "first_match embedding_rules ''unknown-model'' = None"
    by (simp add: embedding_rules_def first_match_Cons first_match_Nil startsWith_def)
  have sel: "select_embeddings ''unknown-model'' = None"
    by (simp only: select_embeddings_first_match none)
  have run: "embeddings no_env upstream_down (with_model ''unknown-model'') =
     (Responded (error_response 400 ''Unsupported embedding model''), [])"
    by (simp add: embeddings_def model_of_with_model sel)
  show ?thesis
    using none run by (simp add: error_response_def)
qed

text \<open>
  Claim C10. In the chain of the embeddings route the Google branch can never be entered:
  whatever the model identifier, the chain does not select it. An identifier that starts
  with \<^verbatim>\<open>text-embedding-004\<close> also starts with \<^verbatim>\<open>text-embedding\<close>, so the first rule takes
  it and the request goes to the OpenAI endpoint with the body unchanged; the request the
  Google branch would build is never sent.
\<close>

theorem google_embeddings_unreachable:
  "select_embeddings m \<noteq> Some Embed_Google \<and>
   (startsWith m ''text-embedding-004'' \<longrightarrow>
      startsWith m ''text-embedding'' \<and>
      select_embeddings m = Some Embed_OpenAI \<and>
      (model_of b = Some m \<longrightarrow>
         embeddings env post b =
           forward post (Some \<lparr>apiUrl = ''https://api.openai.com/v1/embeddings'',
                               headers = bearer (env ''OPENAI_API_KEY''),
                               requestData = b\<rparr>) \<and>
         (\<forall>rq \<in> set (snd (embeddings env post b)).
            apiUrl rq \<noteq> google_embedding_url env \<and>
            Some rq \<noteq> embeddings_request env b m Embed_Google)))"
proof (intro conjI impI)
  show "select_embeddings m \<noteq> Some Embed_Google"
    by (auto simp: select_embeddings_def startsWith_def elim: prefix_order.trans[rotated])
next
  assume p: "startsWith m ''text-embedding-004''"
  have "prefix ''text-embedding'' ''text-embedding-004''" by simp
  then show q: "startsWith m ''text-embedding''"
    using p unfolding startsWith_def by (rule prefix_order.trans)
  then show sel: "select_embeddings m = Some Embed_OpenAI"
    by (simp add: select_embeddings_def)
  assume b: "model_of b = Some m"
  show run: "embeddings env post b =
           forward post (Some \<lparr>apiUrl = ''https://api.openai.com/v1/embeddings'',
                               headers = bearer (env ''OPENAI_API_KEY''),
                               requestData = b\<rparr>)"
    by (simp add: embeddings_def b sel)
  show "\<forall>rq \<in> set (snd (embeddings env post b)).
            apiUrl rq \<noteq> google_embedding_url env \<and>
            Some rq \<noteq> embeddings_request env b m Embed_Google"
    unfolding run
    by (cases "post \<lparr>apiUrl = ''https://api.openai.com/v1/embeddings'',
                               headers = bearer (env ''OPENAI_API_KEY''),
                               requestData = b\<rparr>")
       (simp_all add: google_embedding_url_def)
qed

theorem google_embeddings_unreachable_witness:
  "embeddings no_env upstream_down (with_model ''text-embedding-004'') =
     (Responded \<lparr>code = 500, payload = JObj [(''error'', JStr ''connect ECONNREFUSED'')]\<rparr>,
      [\<lparr>apiUrl = ''https://api.openai.com/v1/embeddings'',
        headers = [(''Authorization'', Some ''Bearer undefined''),
                   (''Content-Type'', Some ''application/json'')],
        requestData = JObj [(''model'', JStr ''text-embedding-004'')]\<rparr>])"
proof -
  have p: "startsWith ''text-embedding-004'' ''text-embedding-004''"
    by (simp add: startsWith_def)
  show ?thesis
    using google_embeddings_unreachable
      [of "''text-embedding-004''" "with_model ''text-embedding-004''" no_env upstream_down]
    by (simp add: p model_of_with_model)
       (simp add: upstream_down_def error_detail_def bearer_def no_env_def with_model_def)
qed

subsection \<open>Upstream failures\<close>

text \<open>The catch block, for any error the upstream call rejects with.\<close>

lemma forward_rejected:
  "post rq = Rejected e \<Longrightarrow>
   forward post (Some rq) =
     (Responded \<lparr>code = 500, payload = JObj [(''error'', error_detail e)]\<rparr>, [rq])"
  by simp

lemma axios_post_rejects:
  assumes "upstream rq = Answer st d" and "\<not> (200 \<le> st \<and> st < 300)"
  shows "axios_post trace upstream rq =
           Rejected \<lparr>response_of = Some (st, d),
                      message = ''Request failed with status code '' @ decimal st,
                      stack = trace\<rparr>"
  using assms by (simp add: axios_post_def)

lemma forward_axios_post:
  assumes "upstream rq = Answer st d" and "\<not> (200 \<le> st \<and> st < 300)"
  shows "forward (axios_post trace upstream) (Some rq) =
           (Responded
              \<lparr>code = 500,
               payload = JObj [(''error'',
                 if truthy d then d
                 else JStr (''Request failed with status code '' @ decimal st))]\<rparr>,
            [rq])"
  using assms by (simp add: axios_post_def error_detail_def)

lemma decimal_502: "decimal 502 = ''502''"
  by (simp add: decimal.simps[of 502] decimal.simps[of 50] decimal.simps[of 5])

text \<open>
  Claim C8, as amended. When the upstream answers the call of a forwarding handler with
  a status that is not 2xx, axios rejects, the handler catches the error and answers 500
  with the body \<^verbatim>\<open>{ error: error.response?.data || error.message }\<close>: its single member
  \<^verbatim>\<open>error\<close> holds the body of the upstream answer, or, when that body is falsy, the message
  of the error, which is \<^verbatim>\<open>Request failed with status code\<close> and the upstream status. No
  structured error is built: the answer has no \<^verbatim>\<open>details\<close> member, and nothing but the
  upstream body is attached when there is one, so that failures with the same truthy
  body are answered alike whatever the provider called and whatever the status. The
  answer does not depend on the stack trace of the error. Stated for the catch block
  that ends every forwarding handler (\<open>forward\<close>) and for the chat completions handler.
\<close>

theorem upstream_error_surfaced:
  assumes "upstream rq = Answer st d" and "\<not> (200 \<le> st \<and> st < 300)"
  shows "forward (axios_post trace upstream) (Some rq) =
           (Responded
              \<lparr>code = 500,
               payload = JObj [(''error'',
                 if truthy d then d
                 else JStr (''Request failed with status code '' @ decimal st))]\<rparr>,
            [rq]) \<and>
         (model_of b = Some m \<and> select_chat m = Some a \<and> chat_request env b m a = Some rq \<longrightarrow>
            chat_completions env (axios_post trace upstream) b =
              (Responded
                 \<lparr>code = 500,
                  payload = JObj [(''error'',
                    if truthy d then d
                    else JStr (''Request failed with status code '' @ decimal st))]\<rparr>,
               [rq])) \<and>
         (\<forall>r. fst (forward (axios_post trace upstream) (Some rq)) = Responded r \<longrightarrow>
            code r = 500 \<and> member_names (payload r) = [''error''] \<and>
            get (payload r) ''details'' = None) \<and>
         (upstream' rq' = Answer st' d \<and> \<not> (200 \<le> st' \<and> st' < 300) \<and> truthy d \<longrightarrow>
            fst (forward (axios_post trace' upstream') (Some rq')) =
            fst (forward (axios_post trace upstream) (Some rq))) \<and>
         forward (axios_post trace' upstream) (Some rq) =
           forward (axios_post trace upstream) (Some rq)"
proof (intro conjI impI allI)
  show "forward (axios_post trace upstream) (Some rq) =
           (Responded
              \<lparr>code = 500,
               payload = JObj [(''error'',
                 if truthy d then d
                 else JStr (''Request failed with status code '' @ decimal st))]\<rparr>,
            [rq])"
    by (rule forward_axios_post[of upstream rq st d, OF assms])
next
  show "forward (axios_post trace' upstream) (Some rq) =
           forward (axios_post trace upstream) (Some rq)"
    by (simp only: forward_axios_post[of upstream rq st d, OF assms])
next
  assume "model_of b = Some m \<and> select_chat m = Some a \<and> chat_request env b m a = Some rq"
  then have "chat_completions env (axios_post trace upstream) b =
      forward (axios_post trace upstream) (Some rq)"
    by (simp add: chat_completions_def del: forward.simps)
  then show "chat_completions env (axios_post trace upstream) b =
              (Responded
                 \<lparr>code = 500,
                  payload = JObj [(''error'',
                    if truthy d then d
                    else JStr (''Request failed with status code '' @ decimal st))]\<rparr>,
               [rq])"
    by (simp only: forward_axios_post[of upstream rq st d, OF assms])
next
  fix r
  assume "fst (forward (axios_post trace upstream) (Some rq)) = Responded r"
  then have r: "r = \<lparr>code = 500,
               payload = JObj [(''error'',
                 if truthy d then d
                 else JStr (''Request failed with status code '' @ decimal st))]\<rparr>"
    unfolding forward_axios_post[of upstream rq st d trace, OF assms] by simp
  show "code r = 500" by (simp add: r)
  show "member_names (payload r) = [''error'']" by (simp add: r)
  show "get (payload r) ''details'' = None" by (simp add: r)
next
  assume other: "upstream' rq' = Answer st' d \<and> \<not> (200 \<le> st' \<and> st' < 300) \<and> truthy d"
  then have o1: "upstream' rq' = Answer st' d" and o2: "\<not> (200 \<le> st' \<and> st' < 300)"
    and o3: "truthy d"
    by blast+
  show "fst (forward (axios_post trace' upstream') (Some rq')) =
          fst (forward (axios_post trace upstream) (Some rq))"
    unfolding forward_axios_post[of upstream' rq' st' d trace', OF o1 o2]
      forward_axios_post[of upstream rq st d trace, OF assms]
    using o3 by simp
qed

theorem upstream_error_surfaced_witness:
  "chat_completions no_env
       (axios_post sample_trace (answering 401 (JObj [(''message'', JStr ''invalid key'')])))
       (with_model ''gpt-4'') =
     (Responded \<lparr>code = 500,
                  payload = JObj [(''error'', JObj [(''message'', JStr ''invalid key'')])]\<rparr>,
      [\<lparr>apiUrl = ''https://api.openai.com/v1/chat/completions'',
        headers = bearer None,
        requestData = with_model ''gpt-4''\<rparr>]) \<and>
   chat_completions no_env (axios_post sample_trace (answering 502 (JStr [])))
       (with_model ''gpt-4'') =
     (Responded \<lparr>code = 500,
                  payload = JObj [(''error'', JStr ''Request failed with status code 502'')]\<rparr>,
      [\<lparr>apiUrl = ''https://api.openai.com/v1/chat/completions'',
        headers = bearer None,
        requestData = with_model ''gpt-4''\<rparr>])"
proof -
  have sel: "select_chat ''gpt-4'' = Some Chat_OpenAI"
    by (simp add: select_chat_def startsWith_def)
  have rq: "chat_request no_env (with_model ''gpt-4'') ''gpt-4'' Chat_OpenAI =
      Some \<lparr>apiUrl = ''https://api.openai.com/v1/chat/completions'',
            headers = bearer None, requestData = with_model ''gpt-4''\<rparr>"
    by (simp add: no_env_def)
  have 1: "answering 401 (JObj [(''message'', JStr ''invalid key'')])
      \<lparr>apiUrl = ''https://api.openai.com/v1/chat/completions'',
        headers = bearer None, requestData = with_model ''gpt-4''\<rparr> =
      Answer 401 (JObj [(''message'', JStr ''invalid key'')])"
    by (simp add: answering_def)
  have 2: "answering 502 (JStr [])
      \<lparr>apiUrl = ''https://api.openai.com/v1/chat/completions'',
        headers = bearer None, requestData = with_model ''gpt-4''\<rparr> =
      Answer 502 (JStr [])"
    by (simp add: answering_def)
  have a: "\<not> (200 \<le> (401::nat) \<and> (401::nat) < 300)" by simp
  have b: "\<not> (200 \<le> (502::nat) \<and> (502::nat) < 300)" by simp
  have built: "model_of (with_model ''gpt-4'') = Some ''gpt-4'' \<and>
      select_chat ''gpt-4'' = Some Chat_OpenAI \<and>
      chat_request no_env (with_model ''gpt-4'') ''gpt-4'' Chat_OpenAI =
        Some \<lparr>apiUrl = ''https://api.openai.com/v1/chat/completions'',
              headers = bearer None, requestData = with_model ''gpt-4''\<rparr>"
    using model_of_with_model[of "''gpt-4''"] sel rq by blast
  note first = upstream_error_surfaced
      [of "answering 401 (JObj [(''message'', JStr ''invalid key'')])"
          "\<lparr>apiUrl = ''https://api.openai.com/v1/chat/completions'',
            headers = bearer None, requestData = with_model ''gpt-4''\<rparr>"
          401 "JObj [(''message'', JStr ''invalid key'')]" sample_trace
          "with_model ''gpt-4''" "''gpt-4''" Chat_OpenAI no_env, OF 1 a]
  note second = upstream_error_surfaced
      [of "answering 502 (JStr [])"
          "\<lparr>apiUrl = ''https://api.openai.com/v1/chat/completions'',
            headers = bearer None, requestData = with_model ''gpt-4''\<rparr>"
          502 "JStr []" sample_trace
          "with_model ''gpt-4''" "''gpt-4''" Chat_OpenAI no_env, OF 2 b]
  have r1: "chat_completions no_env
       (axios_post sample_trace (answering 401 (JObj [(''message'', JStr ''invalid key'')])))
       (with_model ''gpt-4'') =
     (Responded \<lparr>code = 500,
                  payload = JObj [(''error'', JObj [(''message'', JStr ''invalid key'')])]\<rparr>,
      [\<lparr>apiUrl = ''https://api.openai.com/v1/chat/completions'',
        headers = bearer None,
        requestData = with_model ''gpt-4''\<rparr>])"
    using mp[OF conjunct1[OF conjunct2[OF first]] built] by simp
  have r2: "chat_completions no_env (axios_post sample_trace (answering 502 (JStr [])))
       (with_model ''gpt-4'') =
     (Responded \<lparr>code = 500,
                  payload = JObj [(''error'', JStr ''Request failed with status code 502'')]\<rparr>,
      [\<lparr>apiUrl = ''https://api.openai.com/v1/chat/completions'',
        headers = bearer None,
        requestData = with_model ''gpt-4''\<rparr>])"
    using mp[OF conjunct1[OF conjunct2[OF second]] built] by (simp add: decimal_502)
  show ?thesis using r1 r2 by (rule conjI)
qed

text \<open>
  Claim C8 as it is worded fails: OpenAI answering 401 and Anthropic answering 503, both
  with the body \<^verbatim>\<open>denied\<close>, are surfaced to the client as the same response, whose only
  member is \<^verbatim>\<open>error\<close>. The response carries neither the provider nor the status, so no
  structured error with them was built, and no provider detail is attached.
\<close>

theorem upstream_error_counterexample:
  "fst (chat_completions no_env (axios_post sample_trace (answering 401 (JStr ''denied'')))
          (with_model ''gpt-4'')) =
     Responded \<lparr>code = 500, payload = JObj [(''error'', JStr ''denied'')]\<rparr> \<and>
   fst (chat_completions no_env (axios_post sample_trace (answering 503 (JStr ''denied'')))
          (with_model ''claude-3'')) =
     Responded \<lparr>code = 500, payload = JObj [(''error'', JStr ''denied'')]\<rparr> \<and>
   map apiUrl (snd (chat_completions no_env (axios_post sample_trace (answering 401 (JStr ''denied'')))
                      (with_model ''gpt-4''))) =
     [''https://api.openai.com/v1/chat/completions''] \<and>
   map apiUrl (snd (chat_completions no_env (axios_post sample_trace (answering 503 (JStr ''denied'')))
                      (with_model ''claude-3''))) =
     [''https://api.anthropic.com/v1/messages''] \<and>
   member_names (JObj [(''error'', JStr ''denied'')]) = [''error''] \<and>
   get (JObj [(''error'', JStr ''denied'')]) ''details'' = None"
proof -
  have a: "select_chat ''gpt-4'' = Some Chat_OpenAI"
    by (simp add: select_chat_def startsWith_def)
  have b: "select_chat ''claude-3'' = Some Chat_Anthropic"
    by (simp add: select_chat_def startsWith_def)
  show ?thesis
    by (simp add: chat_completions_def model_of_with_model a b axios_post_def answering_def
        error_detail_def)
qed

subsection \<open>The models listing\<close>

lemma entry_of_model_entry: "entry_of (model_entry t c p m) = named (c, p, m)"
  by (simp add: entry_of_def model_entry_def named_def)

lemma entry_of_priced_entry: "entry_of (priced_entry t c p m) = named (c, p, m)"
  by (simp add: entry_of_def priced_entry_def named_def)

lemma push_models_entries:
  assumes "\<And>t c p m. entry_of (entry t c p m) = named (c, p, m)"
  shows "map entry_of (push_models entry clock c p ms acc) =
         map entry_of acc @ map (\<lambda>m. named (c, p, m)) ms"
  unfolding push_models_def
  by (induction ms arbitrary: acc) (simp_all add: assms)

lemma push_providers_entries:
  assumes "\<And>t c p m. entry_of (entry t c p m) = named (c, p, m)"
  shows "map entry_of (push_providers entry clock c ps acc) =
         map entry_of acc @ concat (map (\<lambda>pr. map (\<lambda>m. named (c, fst pr, m)) (snd pr)) ps)"
  unfolding push_providers_def
  by (induction ps arbitrary: acc) (simp_all add: push_models_entries[OF assms])

lemma occurrences_Nil: "occurrences [] = []"
  by (simp add: occurrences_def)

lemma occurrences_Cons:
  "occurrences (cat # table) =
     concat (map (\<lambda>pr. map (\<lambda>m. (fst cat, fst pr, m)) (snd pr)) (snd cat)) @ occurrences table"
  by (simp add: occurrences_def)

lemma push_categories_entries:
  assumes "\<And>t c p m. entry_of (entry t c p m) = named (c, p, m)"
  shows "map entry_of (push_categories entry clock table acc) =
         map entry_of acc @ map named (occurrences table)"
  unfolding push_categories_def
proof (induction table arbitrary: acc)
  case Nil
  show ?case by (simp add: occurrences_Nil)
next
  case (Cons cat table)
  have "map named (concat (map (\<lambda>pr. map (\<lambda>m. (fst cat, fst pr, m)) (snd pr)) (snd cat))) =
        concat (map (\<lambda>pr. map (\<lambda>m. named (fst cat, fst pr, m)) (snd pr)) (snd cat))"
    by (simp add: map_concat comp_def)
  then show ?case
    by (simp add: Cons.IH push_providers_entries[OF assms] occurrences_Cons)
qed

lemma all_models_entries:
  assumes "\<And>t c p m. entry_of (entry t c p m) = named (c, p, m)"
  shows "map entry_of (all_models entry clock table) = map named (occurrences table)"
  by (simp add: all_models_def push_categories_entries[OF assms])

lemma push_models_all:
  assumes "\<And>t c p m. P (entry t c p m)" and "list_all P acc"
  shows "list_all P (push_models entry clock c p ms acc)"
  using assms(2) unfolding push_models_def
  by (induction ms arbitrary: acc) (simp_all add: assms(1))

lemma push_providers_all:
  assumes "\<And>t c p m. P (entry t c p m)" and "list_all P acc"
  shows "list_all P (push_providers entry clock c ps acc)"
  using assms(2) unfolding push_providers_def
  by (induction ps arbitrary: acc) (simp_all add: push_models_all[where P = P, OF assms(1)])

lemma push_categories_all:
  assumes "\<And>t c p m. P (entry t c p m)" and "list_all P acc"
  shows "list_all P (push_categories entry clock table acc)"
  using assms(2) unfolding push_categories_def
  by (induction table arbitrary: acc) (simp_all add: push_providers_all[where P = P, OF assms(1)])

lemma all_models_all:
  assumes "\<And>t c p m. P (entry t c p m)"
  shows "list_all P (all_models entry clock table)"
  unfolding all_models_def by (rule push_categories_all[where P = P, OF assms]) simp

text \<open>
  Lists that carry their key: when the keys are distinct and each list is, so is the
  concatenation.
\<close>

lemma distinct_concat_keyed:
  assumes "distinct (map fst kvs)"
    and "\<And>kv. kv \<in> set kvs \<Longrightarrow> distinct (g kv)"
    and "\<And>kv x. kv \<in> set kvs \<Longrightarrow> x \<in> set (g kv) \<Longrightarrow> h x = fst kv"
  shows "distinct (concat (map g kvs))"
  using assms
proof (induction kvs)
  case Nil
  show ?case by simp
next
  case (Cons kv kvs)
  have rest: "distinct (concat (map g kvs))"
    using Cons.prems by (intro Cons.IH) simp_all
  have here: "distinct (g kv)" using Cons.prems(2) by simp
  have apart: "set (g kv) \<inter> set (concat (map g kvs)) = {}"
  proof (rule ccontr)
    assume "set (g kv) \<inter> set (concat (map g kvs)) \<noteq> {}"
    then obtain x kv' where x: "x \<in> set (g kv)" "kv' \<in> set kvs" "x \<in> set (g kv')"
      by auto
    have "h x = fst kv" using Cons.prems(3)[of kv x] x(1) by simp
    moreover have "h x = fst kv'" using Cons.prems(3)[of kv' x] x(2,3) by simp
    ultimately have "fst kv = fst kv'" by simp
    then have "fst kv \<in> fst ` set kvs" using x(2) by (simp add: image_iff) blast
    then show False using Cons.prems(1) by simp
  qed
  show ?case using rest here apart by simp
qed

lemma distinct_occurrences:
  assumes "well_formed table"
  shows "distinct (occurrences table)"
  unfolding occurrences_def
proof (rule distinct_concat_keyed[where h = fst])
  show "distinct (map fst table)" using assms by (simp add: well_formed_def)
next
  fix cat
  assume cat: "cat \<in> set table"
  then have ps: "distinct (map fst (snd cat))"
    and ms: "\<And>pr. pr \<in> set (snd cat) \<Longrightarrow> distinct (snd pr)"
    using assms by (auto simp: well_formed_def list_all_iff)
  show "distinct (concat (map (\<lambda>provider. map (\<lambda>model. (fst cat, fst provider, model))
          (snd provider)) (snd cat)))"
  proof (rule distinct_concat_keyed[where h = "\<lambda>x. fst (snd x)"])
    show "distinct (map fst (snd cat))" by (rule ps)
  next
    fix pr
    assume "pr \<in> set (snd cat)"
    then show "distinct (map (\<lambda>model. (fst cat, fst pr, model)) (snd pr))"
      using ms by (simp add: distinct_map inj_on_def)
  next
    fix pr x
    assume "pr \<in> set (snd cat)" and "x \<in> set (map (\<lambda>model. (fst cat, fst pr, model)) (snd pr))"
    then show "fst (snd x) = fst pr" by auto
  qed
next
  fix cat x
  assume "cat \<in> set table"
    and "x \<in> set (concat (map (\<lambda>provider. map (\<lambda>model. (fst cat, fst provider, model))
          (snd provider)) (snd cat)))"
  then show "fst x = fst cat" by auto
qed

lemma inj_named: "inj named"
  by (auto simp: inj_on_def named_def prod_eq_iff)

lemma distinct_all_models:
  assumes "\<And>t c p m. entry_of (entry t c p m) = named (c, p, m)" and "well_formed table"
  shows "distinct (all_models entry clock table)"
proof -
  have "distinct (map named (occurrences table))"
    using distinct_occurrences[OF assms(2)] inj_on_subset[OF inj_named subset_UNIV]
    by (simp add: distinct_map)
  then have "distinct (map entry_of (all_models entry clock table))"
    by (simp add: all_models_entries[OF assms(1)])
  then show ?thesis by (simp add: distinct_map)
qed

text \<open>
  What both listings do: each holds exactly one entry for each (category, provider,
  model) occurrence declared in the table, in the table's order, and on a well-formed
  table no entry is repeated. The entries of the Express route \<^verbatim>\<open>GET /v1/models\<close> have the
  members id, object (always \<^verbatim>\<open>model\<close>), created, owned_by and category, and no other; the
  entries of the Next.js route \<^verbatim>\<open>GET /api/models\<close> have these and pricing_tier and pricing
  as well, \<^verbatim>\<open>pro\<close> with a price for the models \<open>is_pro\<close> names and \<^verbatim>\<open>free\<close> with \<^verbatim>\<open>null\<close> for
  the others.
\<close>

lemma listings_flatten_the_table:
  "get (payload (v1_models clock table)) ''data'' = Some (JArr (all_models model_entry clock table)) \<and>
   get (payload (api_models clock table)) ''data'' = Some (JArr (all_models priced_entry clock table)) \<and>
   map entry_of (all_models model_entry clock table) = map named (occurrences table) \<and>
   map entry_of (all_models priced_entry clock table) = map named (occurrences table) \<and>
   list_all (\<lambda>e. member_names e = [''id'', ''object'', ''created'', ''owned_by'', ''category'']
                \<and> get e ''object'' = Some (JStr ''model'')
                \<and> get e ''pricing_tier'' = None \<and> get e ''pricing'' = None)
     (all_models model_entry clock table) \<and>
   list_all (\<lambda>e. member_names e = [''id'', ''object'', ''created'', ''owned_by'', ''category'',
                                     ''pricing_tier'', ''pricing'']
                \<and> get e ''object'' = Some (JStr ''model'')
                \<and> (\<exists>model. get e ''id'' = Some (JStr model) \<and>
                      get e ''pricing_tier'' =
                        Some (JStr (if is_pro model then ''pro'' else ''free'')) \<and>
                      get e ''pricing'' =
                        Some (if is_pro model
                              then JObj [(''input'', JNum (2 / 1000)), (''output'', JNum (2 / 1000))]
                              else JNull)))
     (all_models priced_entry clock table) \<and>
   (well_formed table \<longrightarrow>
      distinct (all_models model_entry clock table) \<and>
      distinct (all_models priced_entry clock table))"
proof (intro conjI impI)
  show "get (payload (v1_models clock table)) ''data'' =
          Some (JArr (all_models model_entry clock table))"
    by (simp add: v1_models_def)
  show "get (payload (api_models clock table)) ''data'' =
          Some (JArr (all_models priced_entry clock table))"
    by (simp add: api_models_def)
  show "map entry_of (all_models model_entry clock table) = map named (occurrences table)"
    by (rule all_models_entries) (rule entry_of_model_entry)
  show "map entry_of (all_models priced_entry clock table) = map named (occurrences table)"
    by (rule all_models_entries) (rule entry_of_priced_entry)
  show "list_all (\<lambda>e. member_names e = [''id'', ''object'', ''created'', ''owned_by'', ''category'']
                \<and> get e ''object'' = Some (JStr ''model'')
                \<and> get e ''pricing_tier'' = None \<and> get e ''pricing'' = None)
     (all_models model_entry clock table)"
    by (rule all_models_all) (simp add: model_entry_def)
  show "list_all (\<lambda>e. member_names e = [''id'', ''object'', ''created'', ''owned_by'', ''category'',
                                     ''pricing_tier'', ''pricing'']
                \<and> get e ''object'' = Some (JStr ''model'')
                \<and> (\<exists>model. get e ''id'' = Some (JStr model) \<and>
                      get e ''pricing_tier'' =
                        Some (JStr (if is_pro model then ''pro'' else ''free'')) \<and>
                      get e ''pricing'' =
                        Some (if is_pro model
                              then JObj [(''input'', JNum (2 / 1000)), (''output'', JNum (2 / 1000))]
                              else JNull)))
     (all_models priced_entry clock table)"
    by (rule all_models_all) (simp add: priced_entry_def)
next
  assume wf: "well_formed table"
  show "distinct (all_models model_entry clock table)"
    using entry_of_model_entry wf by (rule distinct_all_models)
  show "distinct (all_models priced_entry clock table)"
    using entry_of_priced_entry wf by (rule distinct_all_models)
qed

lemma is_pro_gpt_4: "is_pro ''gpt-4''"
  by (simp add: is_pro_def)

lemma not_is_pro_gpt_35: "\<not> is_pro ''gpt-3.5-turbo''"
  by (simp add: is_pro_def)

text \<open>
  Claim C9 holds of the Next.js route and fails of the Express route. With the table
  \<^verbatim>\<open>{ "text": { "openai": ["gpt-4", "gpt-3.5-turbo"] } }\<close>, \<^verbatim>\<open>GET /v1/models\<close> of the Express
  app answers two entries that have neither \<^verbatim>\<open>pricing_tier\<close> nor \<^verbatim>\<open>pricing\<close>, where the
  claim has \<^verbatim>\<open>pricing_tier\<close> in every entry. The dashboard that reads this listing
  (\<^verbatim>\<open>Dashboard.js\<close>, \<^verbatim>\<open>ModelsExplorer.js\<close>) filters and labels the models by
  \<^verbatim>\<open>pricing_tier\<close>, and the Next.js route gives it on the same table: \<^verbatim>\<open>pro\<close> with a price for
  \<^verbatim>\<open>gpt-4\<close>, \<^verbatim>\<open>free\<close> with \<^verbatim>\<open>null\<close> for \<^verbatim>\<open>gpt-3.5-turbo\<close>.
\<close>

theorem v1_models_without_pricing_tier:
  "v1_models fixed_clock [(''text'', [(''openai'', [''gpt-4'', ''gpt-3.5-turbo''])])] =
     \<lparr>code = 200,
      payload = JObj [(''object'', JStr ''list''),
                      (''data'', JArr [JObj [(''id'', JStr ''gpt-4''),
                                             (''object'', JStr ''model''),
                                             (''created'', JNum 1700000000000),
                                             (''owned_by'', JStr ''openai''),
                                             (''category'', JStr ''text'')],
                                       JObj [(''id'', JStr ''gpt-3.5-turbo''),
                                             (''object'', JStr ''model''),
                                             (''created'', JNum 1700000000000),
                                             (''owned_by'', JStr ''openai''),
                                             (''category'', JStr ''text'')]])]\<rparr> \<and>
   map (\<lambda>e. get e ''pricing_tier'')
     (all_models model_entry fixed_clock [(''text'', [(''openai'', [''gpt-4'', ''gpt-3.5-turbo''])])]) =
     [None, None] \<and>
   map (\<lambda>e. get e ''pricing'')
     (all_models model_entry fixed_clock [(''text'', [(''openai'', [''gpt-4'', ''gpt-3.5-turbo''])])]) =
     [None, None] \<and>
   api_models fixed_clock [(''text'', [(''openai'', [''gpt-4'', ''gpt-3.5-turbo''])])] =
     \<lparr>code = 200,
      payload = JObj [(''object'', JStr ''list''),
                      (''data'', JArr [JObj [(''id'', JStr ''gpt-4''),
                                             (''object'', JStr ''model''),
                                             (''created'', JNum 1700000000000),
                                             (''owned_by'', JStr ''openai''),
                                             (''category'', JStr ''text''),
                                             (''pricing_tier'', JStr ''pro''),
                                             (''pricing'', JObj [(''input'', JNum (2 / 1000)),
                                                                 (''output'', JNum (2 / 1000))])],
                                       JObj [(''id'', JStr ''gpt-3.5-turbo''),
                                             (''object'', JStr ''model''),
                                             (''created'', JNum 1700000000000),
                                             (''owned_by'', JStr ''openai''),
                                             (''category'', JStr ''text''),
                                             (''pricing_tier'', JStr ''free''),
                                             (''pricing'', JNull)]])]\<rparr>"
  by (simp add: v1_models_def api_models_def all_models_def push_categories_def
      push_providers_def push_models_def model_entry_def priced_entry_def fixed_clock_def
      is_pro_gpt_4 not_is_pro_gpt_35)

subsection \<open>The auth middleware\<close>

lemma split_on_head: "\<exists>ws. split_on c s = takeWhile (\<lambda>x. x \<noteq> c) s # ws"
proof (induction s)
  case Nil
  show ?case by simp
next
  case (Cons x s)
  then obtain ws where "split_on c s = takeWhile (\<lambda>x. x \<noteq> c) s # ws" by blast
  then show ?case by simp
qed

lemma split_on_append:
  "c \<notin> set w \<Longrightarrow> split_on c (w @ c # s) = w # split_on c s"
  by (induction w) auto

lemma key_of_bearer:
  assumes "startsWith h ''Bearer ''"
  shows "key_of h = Some (takeWhile (\<lambda>c. c \<noteq> CHR '' '') (drop 7 h))"
proof -
  obtain rest where h: "h = ''Bearer '' @ rest"
    using assms by (auto simp: startsWith_def prefix_def)
  have h': "h = ''Bearer'' @ CHR '' '' # rest" by (simp add: h)
  have "split_on (CHR '' '') h = ''Bearer'' # split_on (CHR '' '') rest"
    unfolding h' by (rule split_on_append) simp
  moreover obtain ws where "split_on (CHR '' '') rest = takeWhile (\<lambda>x. x \<noteq> CHR '' '') rest # ws"
    using split_on_head by blast
  moreover have "drop 7 h = rest" by (simp add: h)
  ultimately show ?thesis by (simp add: key_of_def)
qed

lemma auth_unauthorized:
  assumes "authorization req = None \<or> (\<exists>h. authorization req = Some h \<and> \<not> startsWith h ''Bearer '')"
  shows "auth findOne req cont = (Responded (error_response 401 ''Unauthorized''), [])"
  using assms by (auto simp: auth_def)

lemma auth_invalid_key:
  assumes "authorization req = Some h" and "startsWith h ''Bearer ''"
    and "findOne (key_of h) = Absent"
  shows "auth findOne req cont =
           (Responded (error_response 401 ''Invalid API key''), [FindOne (key_of h)])"
proof -
  have "h \<noteq> []" using assms(2) by (auto simp: startsWith_def)
  then show ?thesis using assms by (simp add: auth_def)
qed

lemma routes_behind_auth:
  assumes "behind_auth (path req)"
  shows "\<exists>cont. routes w req = auth (findOne_of w) req cont"
proof -
  consider (chat) "take 2 (path req) = [''v1'', ''chat'']"
    | (images) "take 2 (path req) = [''v1'', ''images'']"
    | (audio) "take 2 (path req) = [''v1'', ''audio'']"
    | (embeddings) "take 2 (path req) = [''v1'', ''embeddings'']"
    using assms unfolding behind_auth_def by blast
  then show ?thesis
  proof cases
    case chat
    then have "routes w req =
        chat_router (env_of w) (findOne_of w) (post_of w) req (drop 2 (path req))"
      by (simp add: routes_def)
    then show ?thesis unfolding chat_router_def by blast
  next
    case images
    then have "routes w req =
        images_router (env_of w) (findOne_of w) (post_of w) req (drop 2 (path req))"
      by (simp add: routes_def)
    then show ?thesis unfolding images_router_def by blast
  next
    case audio
    then have "routes w req =
        audio_router (env_of w) (findOne_of w) (post_of w) req (drop 2 (path req))"
      by (simp add: routes_def)
    then show ?thesis unfolding audio_router_def by blast
  next
    case embeddings
    then have "routes w req =
        embeddings_router (env_of w) (findOne_of w) (post_of w) req (drop 2 (path req))"
      by (simp add: routes_def)
    then show ?thesis unfolding embeddings_router_def by blast
  qed
qed

text \<open>
  Claim C5, as amended. On the routes below \<^verbatim>\<open>/v1/chat\<close>, \<^verbatim>\<open>/v1/images\<close>, \<^verbatim>\<open>/v1/audio\<close> and
  \<^verbatim>\<open>/v1/embeddings\<close>, whose routers start with the auth middleware: a request whose
  \<^verbatim>\<open>Authorization\<close> header is missing or does not start with \<^verbatim>\<open>Bearer \<close> is answered 401
  \<^verbatim>\<open>Unauthorized\<close> with no effect outside the process; a request whose bearer token (the
  header from its eighth character up to the next space) is not in the key store is
  answered 401 \<^verbatim>\<open>Invalid API key\<close>, and the lookup in the store is its only effect. In both
  cases no handler runs and no upstream call is made.
\<close>

theorem auth_rejects_before_dispatch:
  assumes "behind_auth (path req)"
  shows "((authorization req = None \<or>
            (\<exists>h. authorization req = Some h \<and> \<not> startsWith h ''Bearer '')) \<longrightarrow>
           routes w req = (Responded (error_response 401 ''Unauthorized''), [])) \<and>
         (\<forall>h. authorization req = Some h \<and> startsWith h ''Bearer '' \<and>
               findOne_of w (key_of h) = Absent \<longrightarrow>
             key_of h = Some (takeWhile (\<lambda>c. c \<noteq> CHR '' '') (drop 7 h)) \<and>
             routes w req =
               (Responded (error_response 401 ''Invalid API key''), [FindOne (key_of h)]))"
proof -
  obtain cont where r: "routes w req = auth (findOne_of w) req cont"
    using routes_behind_auth[OF assms] by blast
  show ?thesis
    unfolding r
    by (intro conjI impI allI) (auto simp: auth_unauthorized auth_invalid_key key_of_bearer)
qed

theorem auth_rejects_before_dispatch_witness:
  "routes sample_world (anonymous_request POST [''v1'', ''embeddings'']) =
     (Responded (error_response 401 ''Unauthorized''), []) \<and>
   routes sample_world
       (bearer_request ''sk-unknown'' [''v1'', ''chat'', ''completions''] (with_model ''gpt-4'')) =
     (Responded (error_response 401 ''Invalid API key''), [FindOne (Some ''sk-unknown'')])"
proof -
  have k: "key_of ''Bearer sk-unknown'' = Some ''sk-unknown''"
    by (simp add: key_of_def)
  have s: "startsWith ''Bearer sk-unknown'' ''Bearer ''"
    by (simp add: startsWith_def)
  show ?thesis
    using auth_rejects_before_dispatch
        [of "anonymous_request POST [''v1'', ''embeddings'']" sample_world]
      auth_rejects_before_dispatch
        [of "bearer_request ''sk-unknown'' [''v1'', ''chat'', ''completions''] (with_model ''gpt-4'')"
            sample_world]
    by (simp add: behind_auth_def anonymous_request_def bearer_request_def sample_world_def
        empty_store_def k s)
qed

text \<open>
  Claim C5 as it is worded fails on \<^verbatim>\<open>GET /v1/models\<close>: the route is declared on the app
  itself, with no auth middleware, and a request with no \<^verbatim>\<open>Authorization\<close> header is
  answered 200 with the listing.
\<close>

theorem models_without_auth_counterexample:
  "authorization (anonymous_request GET [''v1'', ''models'']) = None \<and>
   routes sample_world (anonymous_request GET [''v1'', ''models'']) =
     (Responded (v1_models fixed_clock [(''text'', [(''openai'', [''gpt-4''])])]), []) \<and>
   code (v1_models fixed_clock [(''text'', [(''openai'', [''gpt-4''])])]) = 200"
  by (simp add: routes_def anonymous_request_def sample_world_def v1_models_def)

subsection \<open>The rate limiter\<close>

lemma limiter_in_window:
  assumes "env ''NODE_ENV'' \<noteq> Some ''development''" and "in_window st req"
  shows "limiter env st req =
           (Suc (hits st (ip req)) \<le> max_requests,
            st\<lparr>hits := (hits st)(ip req := Suc (hits st (ip req)))\<rparr>)"
  using assms by (simp add: limiter_def rateLimit_def skip_def in_window_def Let_def)

lemma limiter_development:
  assumes "env ''NODE_ENV'' = Some ''development''"
  shows "limiter env st req = (True, st)"
  using assms by (simp add: limiter_def rateLimit_def skip_def)

lemma snd_app_in_window:
  assumes "env_of w ''NODE_ENV'' \<noteq> Some ''development''" and "in_window st req"
  shows "snd (app w st req) = st\<lparr>hits := (hits st)(ip req := Suc (hits st (ip req)))\<rparr>"
  using limiter_in_window[of "env_of w" st req] assms by (simp add: app_def)

lemma serve_counts:
  assumes "env_of w ''NODE_ENV'' \<noteq> Some ''development''"
    and "\<forall>r \<in> set reqs. in_window st r"
  shows "snd (serve w st reqs) = st\<lparr>hits := (\<lambda>a. hits st a + from_address a reqs)\<rparr>"
  using assms(2)
proof (induction reqs arbitrary: st)
  case Nil
  show ?case by (simp add: from_address_def)
next
  case (Cons req reqs)
  define st' where "st' = st\<lparr>hits := (hits st)(ip req := Suc (hits st (ip req)))\<rparr>"
  have here: "in_window st req" using Cons.prems by simp
  have step: "snd (app w st req) = st'"
    unfolding st'_def using assms(1) here by (rule snd_app_in_window)
  have "\<forall>r \<in> set reqs. in_window st' r"
    using Cons.prems by (simp add: in_window_def st'_def)
  then have rest: "snd (serve w st' reqs) = st'\<lparr>hits := (\<lambda>a. hits st' a + from_address a reqs)\<rparr>"
    by (rule Cons.IH)
  have "snd (serve w st (req # reqs)) = snd (serve w (snd (app w st req)) reqs)"
    by (simp split: prod.splits)
  also have "\<dots> = st'\<lparr>hits := (\<lambda>a. hits st' a + from_address a reqs)\<rparr>"
    by (simp only: step rest)
  also have "\<dots> = st\<lparr>hits := (\<lambda>a. hits st a + from_address a (req # reqs))\<rparr>"
    by (auto simp: st'_def from_address_def fun_eq_iff)
  finally show ?case .
qed

text \<open>
  Claim C6. The limiter is configured with a window of 15 minutes (900000 ms) and a cap
  of 100. Outside development mode, starting from a fresh window and taking any list of
  earlier requests that arrive within it: as long as fewer than 100 of them came from the
  address of the next request, that request reaches the routes; once 100 of them did, it
  is answered 429 with no effect at all (no lookup in the key store, no handler, no
  upstream call). In development mode the limiter lets every request through and keeps
  no count.
\<close>

theorem rate_limit_window_cap:
  "windowMs = 900000 \<and> max_requests = 100 \<and> code too_many_requests = 429 \<and>
   (env_of w ''NODE_ENV'' = Some ''development'' \<longrightarrow> app w st req = (routes w req, st)) \<and>
   (env_of w ''NODE_ENV'' \<noteq> Some ''development'' \<and> hits st = (\<lambda>a. 0) \<and>
    (\<forall>r \<in> set (earlier @ [req]). in_window st r) \<longrightarrow>
      (from_address (ip req) earlier < 100 \<longrightarrow>
         fst (app w (snd (serve w st earlier)) req) = routes w req) \<and>
      (100 \<le> from_address (ip req) earlier \<longrightarrow>
         fst (app w (snd (serve w st earlier)) req) = (Responded too_many_requests, [])))"
proof (intro conjI impI)
  show "windowMs = 900000" by (simp add: windowMs_def)
  show "max_requests = 100" by (simp add: max_requests_def)
  show "code too_many_requests = 429" by (simp add: too_many_requests_def)
next
  assume "env_of w ''NODE_ENV'' = Some ''development''"
  then show "app w st req = (routes w req, st)"
    by (simp add: app_def limiter_development)
next
  assume a: "env_of w ''NODE_ENV'' \<noteq> Some ''development'' \<and> hits st = (\<lambda>a. 0) \<and>
    (\<forall>r \<in> set (earlier @ [req]). in_window st r)"
  define st' where "st' = snd (serve w st earlier)"
  have st': "st' = st\<lparr>hits := (\<lambda>a. hits st a + from_address a earlier)\<rparr>"
    unfolding st'_def using a by (intro serve_counts) simp_all
  have w: "in_window st' req" using a by (simp add: st' in_window_def)
  have h: "hits st' (ip req) = from_address (ip req) earlier" using a by (simp add: st')
  have l: "limiter (env_of w) st' req =
           (Suc (from_address (ip req) earlier) \<le> max_requests,
            st'\<lparr>hits := (hits st')(ip req := Suc (hits st' (ip req)))\<rparr>)"
    using limiter_in_window[of "env_of w" st' req] a w h by simp
  {
    assume "from_address (ip req) earlier < 100"
    then show "fst (app w (snd (serve w st earlier)) req) = routes w req"
      unfolding st'_def[symmetric] by (simp add: app_def l max_requests_def)
  }
  {
    assume "100 \<le> from_address (ip req) earlier"
    then show "fst (app w (snd (serve w st earlier)) req) = (Responded too_many_requests, [])"
      unfolding st'_def[symmetric] by (simp add: app_def l max_requests_def)
  }
qed

theorem rate_limit_window_cap_witness:
  "fst (app sample_world
         (snd (serve sample_world (fresh_window 0)
                 (replicate 100 (anonymous_request GET [''v1'', ''models'']))))
         (anonymous_request GET [''v1'', ''models''])) =
     (Responded too_many_requests, []) \<and>
   fst (app sample_world
         (snd (serve sample_world (fresh_window 0)
                 (replicate 99 (anonymous_request GET [''v1'', ''models'']))))
         (anonymous_request GET [''v1'', ''models''])) =
     routes sample_world (anonymous_request GET [''v1'', ''models''])"
proof -
  have e: "env_of sample_world ''NODE_ENV'' \<noteq> Some ''development''"
    by (simp add: sample_world_def no_env_def)
  have i: "in_window (fresh_window 0) (anonymous_request GET [''v1'', ''models''])"
    by (simp add: in_window_def fresh_window_def anonymous_request_def windowMs_def)
  have c: "from_address (ip (anonymous_request GET [''v1'', ''models'']))
             (replicate n (anonymous_request GET [''v1'', ''models''])) = n" for n
    by (simp add: from_address_def)
  have f: "hits (fresh_window 0) = (\<lambda>a. 0)" by (simp add: fresh_window_def)
  show ?thesis
    using rate_limit_window_cap
        [of sample_world "fresh_window 0" "anonymous_request GET [''v1'', ''models'']"
            "replicate 100 (anonymous_request GET [''v1'', ''models''])"]
      rate_limit_window_cap
        [of sample_world "fresh_window 0" "anonymous_request GET [''v1'', ''models'']"
            "replicate 99 (anonymous_request GET [''v1'', ''models''])"]
      e i f
    by (simp add: c)
qed

end
